theory Spec2Isabelle
  imports Main "HOL-Library.Sublist" "HOL-Library.Multiset"
begin

section \<open>Strings and numbers of the host language\<close>

text \<open>
  A string holds Unicode text as its UTF-8 bytes: a character beyond ASCII is several
  \<open>char\<close>s. Byte strings that are not well-formed UTF-8 stand for no string of the
  program. \<open>includes_str s p\<close> is \<open>s.includes(p)\<close>, the search for \<open>p\<close> at every
  position of \<open>s\<close>; on well-formed text a match of bytes is a match of characters.
\<close>

fun includes_str :: "string \<Rightarrow> string \<Rightarrow> bool" where
  "includes_str [] p = (p = [])"
| "includes_str (c # cs) p = (prefix p (c # cs) \<or> includes_str cs p)"

text \<open>
  The letters \<open>A\<close> to \<open>Z\<close> mapped to \<open>a\<close> to \<open>z\<close>, every other byte unchanged: the case
  folding of a regular expression with the flag \<open>i\<close> on a pattern of ASCII letters, and
  the lower case of ASCII text.
\<close>

definition isUpperAscii :: "char \<Rightarrow> bool" where
  "isUpperAscii c = (0x41 \<le> (of_char c :: nat) \<and> (of_char c :: nat) \<le> 0x5A)"

definition asciiLowerChar :: "char \<Rightarrow> char" where
  "asciiLowerChar c = (if isUpperAscii c then char_of ((of_char c :: nat) + 0x20) else c)"

definition isAscii :: "char \<Rightarrow> bool" where
  "isAscii c = (\<not> digit7 c)"

subsection \<open>Code points and UTF-8\<close>

text \<open>
  \<open>utf8_from n v least\<close> reads the code points of a byte string, with \<open>n\<close> continuation
  bytes still to come for the code point whose leading bits are \<open>v\<close> and whose value must be
  at least \<open>least\<close> (no overlong forms, no surrogates, nothing beyond \<open>0x10FFFF\<close>).
\<close>

fun utf8_from :: "nat \<Rightarrow> nat \<Rightarrow> nat \<Rightarrow> string \<Rightarrow> nat list option" where
  "utf8_from n v least [] = (if n = 0 then Some [] else None)"
| "utf8_from n v least (c # cs) =
     (let b = (of_char c :: nat) in
      if n = 0
      then if b < 0x80 then map_option (Cons b) (utf8_from 0 0 0 cs)
           else if 0xC2 \<le> b \<and> b < 0xE0 then utf8_from 1 (b - 0xC0) 0x80 cs
           else if 0xE0 \<le> b \<and> b < 0xF0 then utf8_from 2 (b - 0xE0) 0x800 cs
           else if 0xF0 \<le> b \<and> b < 0xF5 then utf8_from 3 (b - 0xF0) 0x10000 cs
           else None
      else if b < 0x80 \<or> 0xC0 \<le> b then None
      else let v' = v * 64 + (b - 0x80) in
           if 1 < n then utf8_from (n - 1) v' least cs
           else if v' < least \<or> (0xD800 \<le> v' \<and> v' < 0xE000) \<or> 0x10FFFF < v' then None
           else map_option (Cons v') (utf8_from 0 0 0 cs))"

definition utf8_decode :: "string \<Rightarrow> nat list option" where
  "utf8_decode s = utf8_from 0 0 0 s"

definition utf8_encode :: "nat \<Rightarrow> string" where
  "utf8_encode c =
     (if c < 0x80 then [char_of c]
      else if c < 0x800 then [char_of (0xC0 + c div 64), char_of (0x80 + c mod 64)]
      else if c < 0x10000
      then [char_of (0xE0 + c div 4096), char_of (0x80 + c div 64 mod 64),
            char_of (0x80 + c mod 64)]
      else [char_of (0xF0 + c div 262144), char_of (0x80 + c div 4096 mod 64),
            char_of (0x80 + c div 64 mod 64), char_of (0x80 + c mod 64)])"

subsection \<open>String.prototype.toLowerCase\<close>

text \<open>
  The conversion of the language standard: the lower-case mapping of the Unicode Character
  Database for each code point, with the two rules of its special casing that do not
  depend on a language. The tables are those of Unicode 15.0 (not code of the repository):
  \<open>lowerRanges\<close> lists the simple lower-case mappings as runs (first, last, stride, image
  of the first), \<open>casedRanges\<close> the property Cased and \<open>caseIgnorableRanges\<close> the
  property Case_Ignorable.
\<close>

definition lowerRanges :: "(nat \<times> nat \<times> nat \<times> nat) list" where
  "lowerRanges =
     [(0x41, 0x5A, 1, 0x61), (0xC0, 0xD6, 1, 0xE0), (0xD8, 0xDE, 1, 0xF8),
      (0x100, 0x12E, 2, 0x101), (0x132, 0x136, 2, 0x133), (0x139, 0x147, 2, 0x13A),
      (0x14A, 0x176, 2, 0x14B), (0x178, 0x178, 1, 0xFF), (0x179, 0x17D, 2, 0x17A),
      (0x181, 0x181, 1, 0x253), (0x182, 0x184, 2, 0x183), (0x186, 0x186, 1, 0x254),
      (0x187, 0x187, 1, 0x188), (0x189, 0x18A, 1, 0x256), (0x18B, 0x18B, 1, 0x18C),
      (0x18E, 0x18E, 1, 0x1DD), (0x18F, 0x18F, 1, 0x259), (0x190, 0x190, 1, 0x25B),
      (0x191, 0x191, 1, 0x192), (0x193, 0x193, 1, 0x260), (0x194, 0x194, 1, 0x263),
      (0x196, 0x196, 1, 0x269), (0x197, 0x197, 1, 0x268), (0x198, 0x198, 1, 0x199),
      (0x19C, 0x19C, 1, 0x26F), (0x19D, 0x19D, 1, 0x272), (0x19F, 0x19F, 1, 0x275),
      (0x1A0, 0x1A4, 2, 0x1A1), (0x1A6, 0x1A6, 1, 0x280), (0x1A7, 0x1A7, 1, 0x1A8),
      (0x1A9, 0x1A9, 1, 0x283), (0x1AC, 0x1AC, 1, 0x1AD), (0x1AE, 0x1AE, 1, 0x288),
      (0x1AF, 0x1AF, 1, 0x1B0), (0x1B1, 0x1B2, 1, 0x28A), (0x1B3, 0x1B5, 2, 0x1B4),
      (0x1B7, 0x1B7, 1, 0x292), (0x1B8, 0x1B8, 1, 0x1B9), (0x1BC, 0x1BC, 1, 0x1BD),
      (0x1C4, 0x1C4, 1, 0x1C6), (0x1C5, 0x1C5, 1, 0x1C6), (0x1C7, 0x1C7, 1, 0x1C9),
      (0x1C8, 0x1C8, 1, 0x1C9), (0x1CA, 0x1CA, 1, 0x1CC), (0x1CB, 0x1DB, 2, 0x1CC),
      (0x1DE, 0x1EE, 2, 0x1DF), (0x1F1, 0x1F1, 1, 0x1F3), (0x1F2, 0x1F4, 2, 0x1F3),
      (0x1F6, 0x1F6, 1, 0x195), (0x1F7, 0x1F7, 1, 0x1BF), (0x1F8, 0x21E, 2, 0x1F9),
      (0x220, 0x220, 1, 0x19E), (0x222, 0x232, 2, 0x223), (0x23A, 0x23A, 1, 0x2C65),
      (0x23B, 0x23B, 1, 0x23C), (0x23D, 0x23D, 1, 0x19A), (0x23E, 0x23E, 1, 0x2C66),
      (0x241, 0x241, 1, 0x242), (0x243, 0x243, 1, 0x180), (0x244, 0x244, 1, 0x289),
      (0x245, 0x245, 1, 0x28C), (0x246, 0x24E, 2, 0x247), (0x370, 0x372, 2, 0x371),
      (0x376, 0x376, 1, 0x377), (0x37F, 0x37F, 1, 0x3F3), (0x386, 0x386, 1, 0x3AC),
      (0x388, 0x38A, 1, 0x3AD), (0x38C, 0x38C, 1, 0x3CC), (0x38E, 0x38F, 1, 0x3CD),
      (0x391, 0x3A1, 1, 0x3B1), (0x3A3, 0x3AB, 1, 0x3C3), (0x3CF, 0x3CF, 1, 0x3D7),
      (0x3D8, 0x3EE, 2, 0x3D9), (0x3F4, 0x3F4, 1, 0x3B8), (0x3F7, 0x3F7, 1, 0x3F8),
      (0x3F9, 0x3F9, 1, 0x3F2), (0x3FA, 0x3FA, 1, 0x3FB), (0x3FD, 0x3FF, 1, 0x37B),
      (0x400, 0x40F, 1, 0x450), (0x410, 0x42F, 1, 0x430), (0x460, 0x480, 2, 0x461),
      (0x48A, 0x4BE, 2, 0x48B), (0x4C0, 0x4C0, 1, 0x4CF), (0x4C1, 0x4CD, 2, 0x4C2),
      (0x4D0, 0x52E, 2, 0x4D1), (0x531, 0x556, 1, 0x561), (0x10A0, 0x10C5, 1, 0x2D00),
      (0x10C7, 0x10C7, 1, 0x2D27), (0x10CD, 0x10CD, 1, 0x2D2D), (0x13A0, 0x13EF, 1, 0xAB70),
      (0x13F0, 0x13F5, 1, 0x13F8), (0x1C90, 0x1CBA, 1, 0x10D0), (0x1CBD, 0x1CBF, 1, 0x10FD),
      (0x1E00, 0x1E94, 2, 0x1E01), (0x1E9E, 0x1E9E, 1, 0xDF), (0x1EA0, 0x1EFE, 2, 0x1EA1),
      (0x1F08, 0x1F0F, 1, 0x1F00), (0x1F18, 0x1F1D, 1, 0x1F10), (0x1F28, 0x1F2F, 1, 0x1F20),
      (0x1F38, 0x1F3F, 1, 0x1F30), (0x1F48, 0x1F4D, 1, 0x1F40), (0x1F59, 0x1F5F, 2, 0x1F51),
      (0x1F68, 0x1F6F, 1, 0x1F60), (0x1F88, 0x1F8F, 1, 0x1F80), (0x1F98, 0x1F9F, 1, 0x1F90),
      (0x1FA8, 0x1FAF, 1, 0x1FA0), (0x1FB8, 0x1FB9, 1, 0x1FB0), (0x1FBA, 0x1FBB, 1, 0x1F70),
      (0x1FBC, 0x1FBC, 1, 0x1FB3), (0x1FC8, 0x1FCB, 1, 0x1F72), (0x1FCC, 0x1FCC, 1, 0x1FC3),
      (0x1FD8, 0x1FD9, 1, 0x1FD0), (0x1FDA, 0x1FDB, 1, 0x1F76), (0x1FE8, 0x1FE9, 1, 0x1FE0),
      (0x1FEA, 0x1FEB, 1, 0x1F7A), (0x1FEC, 0x1FEC, 1, 0x1FE5), (0x1FF8, 0x1FF9, 1, 0x1F78),
      (0x1FFA, 0x1FFB, 1, 0x1F7C), (0x1FFC, 0x1FFC, 1, 0x1FF3), (0x2126, 0x2126, 1, 0x3C9),
      (0x212A, 0x212A, 1, 0x6B), (0x212B, 0x212B, 1, 0xE5), (0x2132, 0x2132, 1, 0x214E),
      (0x2160, 0x216F, 1, 0x2170), (0x2183, 0x2183, 1, 0x2184), (0x24B6, 0x24CF, 1, 0x24D0),
      (0x2C00, 0x2C2F, 1, 0x2C30), (0x2C60, 0x2C60, 1, 0x2C61), (0x2C62, 0x2C62, 1, 0x26B),
      (0x2C63, 0x2C63, 1, 0x1D7D), (0x2C64, 0x2C64, 1, 0x27D), (0x2C67, 0x2C6B, 2, 0x2C68),
      (0x2C6D, 0x2C6D, 1, 0x251), (0x2C6E, 0x2C6E, 1, 0x271), (0x2C6F, 0x2C6F, 1, 0x250),
      (0x2C70, 0x2C70, 1, 0x252), (0x2C72, 0x2C72, 1, 0x2C73), (0x2C75, 0x2C75, 1, 0x2C76),
      (0x2C7E, 0x2C7F, 1, 0x23F), (0x2C80, 0x2CE2, 2, 0x2C81), (0x2CEB, 0x2CED, 2, 0x2CEC),
      (0x2CF2, 0x2CF2, 1, 0x2CF3), (0xA640, 0xA66C, 2, 0xA641), (0xA680, 0xA69A, 2, 0xA681),
      (0xA722, 0xA72E, 2, 0xA723), (0xA732, 0xA76E, 2, 0xA733), (0xA779, 0xA77B, 2, 0xA77A),
      (0xA77D, 0xA77D, 1, 0x1D79), (0xA77E, 0xA786, 2, 0xA77F), (0xA78B, 0xA78B, 1, 0xA78C),
      (0xA78D, 0xA78D, 1, 0x265), (0xA790, 0xA792, 2, 0xA791), (0xA796, 0xA7A8, 2, 0xA797),
      (0xA7AA, 0xA7AA, 1, 0x266), (0xA7AB, 0xA7AB, 1, 0x25C), (0xA7AC, 0xA7AC, 1, 0x261),
      (0xA7AD, 0xA7AD, 1, 0x26C), (0xA7AE, 0xA7AE, 1, 0x26A), (0xA7B0, 0xA7B0, 1, 0x29E),
      (0xA7B1, 0xA7B1, 1, 0x287), (0xA7B2, 0xA7B2, 1, 0x29D), (0xA7B3, 0xA7B3, 1, 0xAB53),
      (0xA7B4, 0xA7C2, 2, 0xA7B5), (0xA7C4, 0xA7C4, 1, 0xA794), (0xA7C5, 0xA7C5, 1, 0x282),
      (0xA7C6, 0xA7C6, 1, 0x1D8E), (0xA7C7, 0xA7C9, 2, 0xA7C8), (0xA7D0, 0xA7D0, 1, 0xA7D1),
      (0xA7D6, 0xA7D8, 2, 0xA7D7), (0xA7F5, 0xA7F5, 1, 0xA7F6), (0xFF21, 0xFF3A, 1, 0xFF41),
      (0x10400, 0x10427, 1, 0x10428), (0x104B0, 0x104D3, 1, 0x104D8), (0x10570, 0x10594, 2, 0x10597),
      (0x10571, 0x1057A, 1, 0x10598), (0x1057D, 0x1058A, 1, 0x105A4), (0x1058D, 0x10592, 1, 0x105B4),
      (0x10595, 0x10595, 1, 0x105BC), (0x10C80, 0x10CB2, 1, 0x10CC0), (0x118A0, 0x118BF, 1, 0x118C0),
      (0x16E40, 0x16E5F, 1, 0x16E60), (0x1E900, 0x1E921, 1, 0x1E922)]"

definition casedRanges :: "(nat \<times> nat) list" where
  "casedRanges =
     [(0x41, 0x5A), (0x61, 0x7A), (0xAA, 0xAA), (0xB5, 0xB5), (0xBA, 0xBA),
      (0xC0, 0xD6), (0xD8, 0xF6), (0xF8, 0x1BA), (0x1BC, 0x1BF), (0x1C4, 0x293),
      (0x295, 0x2B8), (0x2C0, 0x2C1), (0x2E0, 0x2E4), (0x345, 0x345), (0x370, 0x373),
      (0x376, 0x377), (0x37A, 0x37D), (0x37F, 0x37F), (0x386, 0x386), (0x388, 0x38A),
      (0x38C, 0x38C), (0x38E, 0x3A1), (0x3A3, 0x3F5), (0x3F7, 0x481), (0x48A, 0x52F),
      (0x531, 0x556), (0x560, 0x588), (0x10A0, 0x10C5), (0x10C7, 0x10C7), (0x10CD, 0x10CD),
      (0x10D0, 0x10FA), (0x10FC, 0x10FF), (0x13A0, 0x13F5), (0x13F8, 0x13FD), (0x1C80, 0x1C88),
      (0x1C90, 0x1CBA), (0x1CBD, 0x1CBF), (0x1D00, 0x1DBF), (0x1E00, 0x1F15), (0x1F18, 0x1F1D),
      (0x1F20, 0x1F45), (0x1F48, 0x1F4D), (0x1F50, 0x1F57), (0x1F59, 0x1F59), (0x1F5B, 0x1F5B),
      (0x1F5D, 0x1F5D), (0x1F5F, 0x1F7D), (0x1F80, 0x1FB4), (0x1FB6, 0x1FBC), (0x1FBE, 0x1FBE),
      (0x1FC2, 0x1FC4), (0x1FC6, 0x1FCC), (0x1FD0, 0x1FD3), (0x1FD6, 0x1FDB), (0x1FE0, 0x1FEC),
      (0x1FF2, 0x1FF4), (0x1FF6, 0x1FFC), (0x2071, 0x2071), (0x207F, 0x207F), (0x2090, 0x209C),
      (0x2102, 0x2102), (0x2107, 0x2107), (0x210A, 0x2113), (0x2115, 0x2115), (0x2119, 0x211D),
      (0x2124, 0x2124), (0x2126, 0x2126), (0x2128, 0x2128), (0x212A, 0x212D), (0x212F, 0x2134),
      (0x2139, 0x2139), (0x213C, 0x213F), (0x2145, 0x2149), (0x214E, 0x214E), (0x2160, 0x217F),
      (0x2183, 0x2184), (0x24B6, 0x24E9), (0x2C00, 0x2CE4), (0x2CEB, 0x2CEE), (0x2CF2, 0x2CF3),
      (0x2D00, 0x2D25), (0x2D27, 0x2D27), (0x2D2D, 0x2D2D), (0xA640, 0xA66D), (0xA680, 0xA69D),
      (0xA722, 0xA787), (0xA78B, 0xA78E), (0xA790, 0xA7CA), (0xA7D0, 0xA7D1), (0xA7D3, 0xA7D3),
      (0xA7D5, 0xA7D9), (0xA7F2, 0xA7F6), (0xA7F8, 0xA7FA), (0xAB30, 0xAB5A), (0xAB5C, 0xAB69),
      (0xAB70, 0xABBF), (0xFB00, 0xFB06), (0xFB13, 0xFB17), (0xFF21, 0xFF3A), (0xFF41, 0xFF5A),
      (0x10400, 0x1044F), (0x104B0, 0x104D3), (0x104D8, 0x104FB), (0x10570, 0x1057A), (0x1057C, 0x1058A),
      (0x1058C, 0x10592), (0x10594, 0x10595), (0x10597, 0x105A1), (0x105A3, 0x105B1), (0x105B3, 0x105B9),
      (0x105BB, 0x105BC), (0x10780, 0x10780), (0x10783, 0x10785), (0x10787, 0x107B0), (0x107B2, 0x107BA),
      (0x10C80, 0x10CB2), (0x10CC0, 0x10CF2), (0x118A0, 0x118DF), (0x16E40, 0x16E7F), (0x1D400, 0x1D454),
      (0x1D456, 0x1D49C), (0x1D49E, 0x1D49F), (0x1D4A2, 0x1D4A2), (0x1D4A5, 0x1D4A6), (0x1D4A9, 0x1D4AC),
      (0x1D4AE, 0x1D4B9), (0x1D4BB, 0x1D4BB), (0x1D4BD, 0x1D4C3), (0x1D4C5, 0x1D505), (0x1D507, 0x1D50A),
      (0x1D50D, 0x1D514), (0x1D516, 0x1D51C), (0x1D51E, 0x1D539), (0x1D53B, 0x1D53E), (0x1D540, 0x1D544),
      (0x1D546, 0x1D546), (0x1D54A, 0x1D550), (0x1D552, 0x1D6A5), (0x1D6A8, 0x1D6C0), (0x1D6C2, 0x1D6DA),
      (0x1D6DC, 0x1D6FA), (0x1D6FC, 0x1D714), (0x1D716, 0x1D734), (0x1D736, 0x1D74E), (0x1D750, 0x1D76E),
      (0x1D770, 0x1D788), (0x1D78A, 0x1D7A8), (0x1D7AA, 0x1D7C2), (0x1D7C4, 0x1D7CB), (0x1DF00, 0x1DF09),
      (0x1DF0B, 0x1DF1E), (0x1DF25, 0x1DF2A), (0x1E030, 0x1E06D), (0x1E900, 0x1E943), (0x1F130, 0x1F149),
      (0x1F150, 0x1F169), (0x1F170, 0x1F189)]"

definition caseIgnorableRanges :: "(nat \<times> nat) list" where
  "caseIgnorableRanges =
     [(0x27, 0x27), (0x2E, 0x2E), (0x3A, 0x3A), (0x5E, 0x5E), (0x60, 0x60),
      (0xA8, 0xA8), (0xAD, 0xAD), (0xAF, 0xAF), (0xB4, 0xB4), (0xB7, 0xB8),
      (0x2B0, 0x36F), (0x374, 0x375), (0x37A, 0x37A), (0x384, 0x385), (0x387, 0x387),
      (0x483, 0x489), (0x559, 0x559), (0x55F, 0x55F), (0x591, 0x5BD), (0x5BF, 0x5BF),
      (0x5C1, 0x5C2), (0x5C4, 0x5C5), (0x5C7, 0x5C7), (0x5F4, 0x5F4), (0x600, 0x605),
      (0x610, 0x61A), (0x61C, 0x61C), (0x640, 0x640), (0x64B, 0x65F), (0x670, 0x670),
      (0x6D6, 0x6DD), (0x6DF, 0x6E8), (0x6EA, 0x6ED), (0x70F, 0x70F), (0x711, 0x711),
      (0x730, 0x74A), (0x7A6, 0x7B0), (0x7EB, 0x7F5), (0x7FA, 0x7FA), (0x7FD, 0x7FD),
      (0x816, 0x82D), (0x859, 0x85B), (0x888, 0x888), (0x890, 0x891), (0x898, 0x89F),
      (0x8C9, 0x902), (0x93A, 0x93A), (0x93C, 0x93C), (0x941, 0x948), (0x94D, 0x94D),
      (0x951, 0x957), (0x962, 0x963), (0x971, 0x971), (0x981, 0x981), (0x9BC, 0x9BC),
      (0x9C1, 0x9C4), (0x9CD, 0x9CD), (0x9E2, 0x9E3), (0x9FE, 0x9FE), (0xA01, 0xA02),
      (0xA3C, 0xA3C), (0xA41, 0xA42), (0xA47, 0xA48), (0xA4B, 0xA4D), (0xA51, 0xA51),
      (0xA70, 0xA71), (0xA75, 0xA75), (0xA81, 0xA82), (0xABC, 0xABC), (0xAC1, 0xAC5),
      (0xAC7, 0xAC8), (0xACD, 0xACD), (0xAE2, 0xAE3), (0xAFA, 0xAFF), (0xB01, 0xB01),
      (0xB3C, 0xB3C), (0xB3F, 0xB3F), (0xB41, 0xB44), (0xB4D, 0xB4D), (0xB55, 0xB56),
      (0xB62, 0xB63), (0xB82, 0xB82), (0xBC0, 0xBC0), (0xBCD, 0xBCD), (0xC00, 0xC00),
      (0xC04, 0xC04), (0xC3C, 0xC3C), (0xC3E, 0xC40), (0xC46, 0xC48), (0xC4A, 0xC4D),
      (0xC55, 0xC56), (0xC62, 0xC63), (0xC81, 0xC81), (0xCBC, 0xCBC), (0xCBF, 0xCBF),
      (0xCC6, 0xCC6), (0xCCC, 0xCCD), (0xCE2, 0xCE3), (0xD00, 0xD01), (0xD3B, 0xD3C),
      (0xD41, 0xD44), (0xD4D, 0xD4D), (0xD62, 0xD63), (0xD81, 0xD81), (0xDCA, 0xDCA),
      (0xDD2, 0xDD4), (0xDD6, 0xDD6), (0xE31, 0xE31), (0xE34, 0xE3A), (0xE46, 0xE4E),
      (0xEB1, 0xEB1), (0xEB4, 0xEBC), (0xEC6, 0xEC6), (0xEC8, 0xECE), (0xF18, 0xF19),
      (0xF35, 0xF35), (0xF37, 0xF37), (0xF39, 0xF39), (0xF71, 0xF7E), (0xF80, 0xF84),
      (0xF86, 0xF87), (0xF8D, 0xF97), (0xF99, 0xFBC), (0xFC6, 0xFC6), (0x102D, 0x1030),
      (0x1032, 0x1037), (0x1039, 0x103A), (0x103D, 0x103E), (0x1058, 0x1059), (0x105E, 0x1060),
      (0x1071, 0x1074), (0x1082, 0x1082), (0x1085, 0x1086), (0x108D, 0x108D), (0x109D, 0x109D),
      (0x10FC, 0x10FC), (0x135D, 0x135F), (0x1712, 0x1714), (0x1732, 0x1733), (0x1752, 0x1753),
      (0x1772, 0x1773), (0x17B4, 0x17B5), (0x17B7, 0x17BD), (0x17C6, 0x17C6), (0x17C9, 0x17D3),
      (0x17D7, 0x17D7), (0x17DD, 0x17DD), (0x180B, 0x180F), (0x1843, 0x1843), (0x1885, 0x1886),
      (0x18A9, 0x18A9), (0x1920, 0x1922), (0x1927, 0x1928), (0x1932, 0x1932), (0x1939, 0x193B),
      (0x1A17, 0x1A18), (0x1A1B, 0x1A1B), (0x1A56, 0x1A56), (0x1A58, 0x1A5E), (0x1A60, 0x1A60),
      (0x1A62, 0x1A62), (0x1A65, 0x1A6C), (0x1A73, 0x1A7C), (0x1A7F, 0x1A7F), (0x1AA7, 0x1AA7),
      (0x1AB0, 0x1ACE), (0x1B00, 0x1B03), (0x1B34, 0x1B34), (0x1B36, 0x1B3A), (0x1B3C, 0x1B3C),
      (0x1B42, 0x1B42), (0x1B6B, 0x1B73), (0x1B80, 0x1B81), (0x1BA2, 0x1BA5), (0x1BA8, 0x1BA9),
      (0x1BAB, 0x1BAD), (0x1BE6, 0x1BE6), (0x1BE8, 0x1BE9), (0x1BED, 0x1BED), (0x1BEF, 0x1BF1),
      (0x1C2C, 0x1C33), (0x1C36, 0x1C37), (0x1C78, 0x1C7D), (0x1CD0, 0x1CD2), (0x1CD4, 0x1CE0),
      (0x1CE2, 0x1CE8), (0x1CED, 0x1CED), (0x1CF4, 0x1CF4), (0x1CF8, 0x1CF9), (0x1D2C, 0x1D6A),
      (0x1D78, 0x1D78), (0x1D9B, 0x1DFF), (0x1FBD, 0x1FBD), (0x1FBF, 0x1FC1), (0x1FCD, 0x1FCF),
      (0x1FDD, 0x1FDF), (0x1FED, 0x1FEF), (0x1FFD, 0x1FFE), (0x200B, 0x200F), (0x2018, 0x2019),
      (0x2024, 0x2024), (0x2027, 0x2027), (0x202A, 0x202E), (0x2060, 0x2064), (0x2066, 0x206F),
      (0x2071, 0x2071), (0x207F, 0x207F), (0x2090, 0x209C), (0x20D0, 0x20F0), (0x2C7C, 0x2C7D),
      (0x2CEF, 0x2CF1), (0x2D6F, 0x2D6F), (0x2D7F, 0x2D7F), (0x2DE0, 0x2DFF), (0x2E2F, 0x2E2F),
      (0x3005, 0x3005), (0x302A, 0x302D), (0x3031, 0x3035), (0x303B, 0x303B), (0x3099, 0x309E),
      (0x30FC, 0x30FE), (0xA015, 0xA015), (0xA4F8, 0xA4FD), (0xA60C, 0xA60C), (0xA66F, 0xA672),
      (0xA674, 0xA67D), (0xA67F, 0xA67F), (0xA69C, 0xA69F), (0xA6F0, 0xA6F1), (0xA700, 0xA721),
      (0xA770, 0xA770), (0xA788, 0xA78A), (0xA7F2, 0xA7F4), (0xA7F8, 0xA7F9), (0xA802, 0xA802),
      (0xA806, 0xA806), (0xA80B, 0xA80B), (0xA825, 0xA826), (0xA82C, 0xA82C), (0xA8C4, 0xA8C5),
      (0xA8E0, 0xA8F1), (0xA8FF, 0xA8FF), (0xA926, 0xA92D), (0xA947, 0xA951), (0xA980, 0xA982),
      (0xA9B3, 0xA9B3), (0xA9B6, 0xA9B9), (0xA9BC, 0xA9BD), (0xA9CF, 0xA9CF), (0xA9E5, 0xA9E6),
      (0xAA29, 0xAA2E), (0xAA31, 0xAA32), (0xAA35, 0xAA36), (0xAA43, 0xAA43), (0xAA4C, 0xAA4C),
      (0xAA70, 0xAA70), (0xAA7C, 0xAA7C), (0xAAB0, 0xAAB0), (0xAAB2, 0xAAB4), (0xAAB7, 0xAAB8),
      (0xAABE, 0xAABF), (0xAAC1, 0xAAC1), (0xAADD, 0xAADD), (0xAAEC, 0xAAED), (0xAAF3, 0xAAF4),
      (0xAAF6, 0xAAF6), (0xAB5B, 0xAB5F), (0xAB69, 0xAB6B), (0xABE5, 0xABE5), (0xABE8, 0xABE8),
      (0xABED, 0xABED), (0xFB1E, 0xFB1E), (0xFBB2, 0xFBC2), (0xFE00, 0xFE0F), (0xFE13, 0xFE13),
      (0xFE20, 0xFE2F), (0xFE52, 0xFE52), (0xFE55, 0xFE55), (0xFEFF, 0xFEFF), (0xFF07, 0xFF07),
      (0xFF0E, 0xFF0E), (0xFF1A, 0xFF1A), (0xFF3E, 0xFF3E), (0xFF40, 0xFF40), (0xFF70, 0xFF70),
      (0xFF9E, 0xFF9F), (0xFFE3, 0xFFE3), (0xFFF9, 0xFFFB), (0x101FD, 0x101FD), (0x102E0, 0x102E0),
      (0x10376, 0x1037A), (0x10780, 0x10785), (0x10787, 0x107B0), (0x107B2, 0x107BA), (0x10A01, 0x10A03),
      (0x10A05, 0x10A06), (0x10A0C, 0x10A0F), (0x10A38, 0x10A3A), (0x10A3F, 0x10A3F), (0x10AE5, 0x10AE6),
      (0x10D24, 0x10D27), (0x10EAB, 0x10EAC), (0x10EFD, 0x10EFF), (0x10F46, 0x10F50), (0x10F82, 0x10F85),
      (0x11001, 0x11001), (0x11038, 0x11046), (0x11070, 0x11070), (0x11073, 0x11074), (0x1107F, 0x11081),
      (0x110B3, 0x110B6), (0x110B9, 0x110BA), (0x110BD, 0x110BD), (0x110C2, 0x110C2), (0x110CD, 0x110CD),
      (0x11100, 0x11102), (0x11127, 0x1112B), (0x1112D, 0x11134), (0x11173, 0x11173), (0x11180, 0x11181),
      (0x111B6, 0x111BE), (0x111C9, 0x111CC), (0x111CF, 0x111CF), (0x1122F, 0x11231), (0x11234, 0x11234),
      (0x11236, 0x11237), (0x1123E, 0x1123E), (0x11241, 0x11241), (0x112DF, 0x112DF), (0x112E3, 0x112EA),
      (0x11300, 0x11301), (0x1133B, 0x1133C), (0x11340, 0x11340), (0x11366, 0x1136C), (0x11370, 0x11374),
      (0x11438, 0x1143F), (0x11442, 0x11444), (0x11446, 0x11446), (0x1145E, 0x1145E), (0x114B3, 0x114B8),
      (0x114BA, 0x114BA), (0x114BF, 0x114C0), (0x114C2, 0x114C3), (0x115B2, 0x115B5), (0x115BC, 0x115BD),
      (0x115BF, 0x115C0), (0x115DC, 0x115DD), (0x11633, 0x1163A), (0x1163D, 0x1163D), (0x1163F, 0x11640),
      (0x116AB, 0x116AB), (0x116AD, 0x116AD), (0x116B0, 0x116B5), (0x116B7, 0x116B7), (0x1171D, 0x1171F),
      (0x11722, 0x11725), (0x11727, 0x1172B), (0x1182F, 0x11837), (0x11839, 0x1183A), (0x1193B, 0x1193C),
      (0x1193E, 0x1193E), (0x11943, 0x11943), (0x119D4, 0x119D7), (0x119DA, 0x119DB), (0x119E0, 0x119E0),
      (0x11A01, 0x11A0A), (0x11A33, 0x11A38), (0x11A3B, 0x11A3E), (0x11A47, 0x11A47), (0x11A51, 0x11A56),
      (0x11A59, 0x11A5B), (0x11A8A, 0x11A96), (0x11A98, 0x11A99), (0x11C30, 0x11C36), (0x11C38, 0x11C3D),
      (0x11C3F, 0x11C3F), (0x11C92, 0x11CA7), (0x11CAA, 0x11CB0), (0x11CB2, 0x11CB3), (0x11CB5, 0x11CB6),
      (0x11D31, 0x11D36), (0x11D3A, 0x11D3A), (0x11D3C, 0x11D3D), (0x11D3F, 0x11D45), (0x11D47, 0x11D47),
      (0x11D90, 0x11D91), (0x11D95, 0x11D95), (0x11D97, 0x11D97), (0x11EF3, 0x11EF4), (0x11F00, 0x11F01),
      (0x11F36, 0x11F3A), (0x11F40, 0x11F40), (0x11F42, 0x11F42), (0x13430, 0x13440), (0x13447, 0x13455),
      (0x16AF0, 0x16AF4), (0x16B30, 0x16B36), (0x16B40, 0x16B43), (0x16F4F, 0x16F4F), (0x16F8F, 0x16F9F),
      (0x16FE0, 0x16FE1), (0x16FE3, 0x16FE4), (0x1AFF0, 0x1AFF3), (0x1AFF5, 0x1AFFB), (0x1AFFD, 0x1AFFE),
      (0x1BC9D, 0x1BC9E), (0x1BCA0, 0x1BCA3), (0x1CF00, 0x1CF2D), (0x1CF30, 0x1CF46), (0x1D167, 0x1D169),
      (0x1D173, 0x1D182), (0x1D185, 0x1D18B), (0x1D1AA, 0x1D1AD), (0x1D242, 0x1D244), (0x1DA00, 0x1DA36),
      (0x1DA3B, 0x1DA6C), (0x1DA75, 0x1DA75), (0x1DA84, 0x1DA84), (0x1DA9B, 0x1DA9F), (0x1DAA1, 0x1DAAF),
      (0x1E000, 0x1E006), (0x1E008, 0x1E018), (0x1E01B, 0x1E021), (0x1E023, 0x1E024), (0x1E026, 0x1E02A),
      (0x1E030, 0x1E06D), (0x1E08F, 0x1E08F), (0x1E130, 0x1E13D), (0x1E2AE, 0x1E2AE), (0x1E2EC, 0x1E2EF),
      (0x1E4EB, 0x1E4EF), (0x1E8D0, 0x1E8D6), (0x1E944, 0x1E94B), (0x1F3FB, 0x1F3FF), (0xE0001, 0xE0001),
      (0xE0020, 0xE007F), (0xE0100, 0xE01EF)]"

fun simpleLower :: "nat \<Rightarrow> (nat \<times> nat \<times> nat \<times> nat) list \<Rightarrow> nat" where
  "simpleLower c [] = c"
| "simpleLower c ((lo, hi, stride, target) # rs) =
     (if lo \<le> c \<and> c \<le> hi \<and> (c - lo) mod stride = 0 then target + (c - lo)
      else simpleLower c rs)"

text \<open>\<open>U+0130\<close> (capital I with dot above) becomes \<open>i\<close> and a combining dot.\<close>

definition lowercaseMapping :: "nat \<Rightarrow> nat list" where
  "lowercaseMapping c = (if c = 0x130 then [0x69, 0x307] else [simpleLower c lowerRanges])"

definition inRanges :: "nat \<Rightarrow> (nat \<times> nat) list \<Rightarrow> bool" where
  "inRanges c rs = list_ex (\<lambda>(lo, hi). lo \<le> c \<and> c \<le> hi) rs"

definition cased :: "nat \<Rightarrow> bool" where
  "cased c = inRanges c casedRanges"

definition caseIgnorable :: "nat \<Rightarrow> bool" where
  "caseIgnorable c = inRanges c caseIgnorableRanges"

text \<open>
  A capital sigma \<open>U+03A3\<close> is final, and becomes \<open>U+03C2\<close> instead of \<open>U+03C3\<close>, when
  a cased letter comes before it and none comes after it, case-ignorable characters in
  between being skipped. \<open>before\<close> is the text before the sigma, nearest character first.
\<close>

definition casedNext :: "nat list \<Rightarrow> bool" where
  "casedNext cps = (case dropWhile caseIgnorable cps of [] \<Rightarrow> False | c # _ \<Rightarrow> cased c)"

definition finalSigma :: "nat list \<Rightarrow> nat list \<Rightarrow> bool" where
  "finalSigma before after = (casedNext before \<and> \<not> casedNext after)"

fun lowerFrom :: "nat list \<Rightarrow> nat list \<Rightarrow> nat list" where
  "lowerFrom before [] = []"
| "lowerFrom before (c # after) =
     (if c = 0x3A3 then [if finalSigma before after then 0x3C2 else 0x3C3]
      else lowercaseMapping c) @ lowerFrom (c # before) after"

definition toLowerCase :: "string \<Rightarrow> string" where
  "toLowerCase s =
     (case utf8_decode s of
        None \<Rightarrow> s
      | Some cps \<Rightarrow> concat (map utf8_encode (lowerFrom [] cps)))"


text \<open>
  A number is an integer or \<open>NaN\<close>. Truthiness of a number (\<open>!n\<close> is its negation):
  \<open>NaN\<close> and \<open>0\<close> are falsy.
\<close>

datatype jsnumber = NaN | Num int

fun truthy_num :: "jsnumber \<Rightarrow> bool" where
  "truthy_num NaN = False"
| "truthy_num (Num i) = (i \<noteq> 0)"

section \<open>The context (types.ts, context.ts)\<close>

record GitLabContext =
  projectId :: string
  projectPath :: string
  projectUrl :: string
  webUrl :: string
  isMR :: bool
  iid :: jsnumber
  triggerUser :: string
  triggerUsername :: string
  triggerPhrase :: string
  defaultBranch :: string
  sourceBranch :: "string option"
  targetBranch :: "string option"
  jobId :: string
  jobUrl :: string
  pipelineId :: string
  pipelineUrl :: string
  token :: string
  apiUrl :: string

definition isValidTrigger :: "string \<Rightarrow> GitLabContext \<Rightarrow> bool" where
  "isValidTrigger text ctx =
     includes_str (toLowerCase text) (toLowerCase (triggerPhrase ctx))"

text \<open>
  \<open>parseInt\<close> with no radix: leading white space is skipped, one sign is read, the prefix
  \<open>0x\<close> or \<open>0X\<close> selects radix 16 (radix 10 otherwise), and the longest run of digits of
  that radix is the value; no digit at all gives \<open>NaN\<close>. Values are unbounded integers
  (the rounding of very long digit strings to a double is left out).
\<close>

definition isWhiteSpace :: "char \<Rightarrow> bool" where
  "isWhiteSpace c = (c \<in> set [CHR 0x09, CHR 0x0A, CHR 0x0B, CHR 0x0C, CHR 0x0D, CHR '' ''])"

definition digitValue :: "char \<Rightarrow> nat option" where
  "digitValue c =
     map_of (zip ''0123456789abcdef'' [0, 1, 2, 3, 4, 5, 6, 7, 8, 9, 10, 11, 12, 13, 14, 15] @
             zip ''ABCDEF'' [10, 11, 12, 13, 14, 15]) c"

definition radixDigit :: "nat \<Rightarrow> char \<Rightarrow> nat option" where
  "radixDigit R c =
     (case digitValue c of None \<Rightarrow> None | Some d \<Rightarrow> if d < R then Some d else None)"

definition isRadixDigit :: "nat \<Rightarrow> char \<Rightarrow> bool" where
  "isRadixDigit R c = (radixDigit R c \<noteq> None)"

definition digitsValue :: "nat \<Rightarrow> string \<Rightarrow> nat" where
  "digitsValue R Z =
     foldl (\<lambda>acc c. acc * R + (case radixDigit R c of None \<Rightarrow> 0 | Some d \<Rightarrow> d)) 0 Z"

definition signOf :: "string \<Rightarrow> int" where
  "signOf S = (case S of [] \<Rightarrow> 1 | c # _ \<Rightarrow> if c = CHR ''-'' then - 1 else 1)"

definition stripSign :: "string \<Rightarrow> string" where
  "stripSign S =
     (case S of [] \<Rightarrow> [] | c # cs \<Rightarrow> if c = CHR ''+'' \<or> c = CHR ''-'' then cs else c # cs)"

definition hasHexPrefix :: "string \<Rightarrow> bool" where
  "hasHexPrefix S = (take 2 S = ''0x'' \<or> take 2 S = ''0X'')"

definition parseInt :: "string \<Rightarrow> jsnumber" where
  "parseInt input =
     (let S = dropWhile isWhiteSpace input;
          sign = signOf S;
          S1 = stripSign S;
          R = (if hasHexPrefix S1 then 16 else 10);
          S2 = (if hasHexPrefix S1 then drop 2 S1 else S1);
          Z = takeWhile (isRadixDigit R) S2
      in if Z = [] then NaN else Num (sign * int (digitsValue R Z)))"

text \<open>
  The process environment is a map from variable names to strings. \<open>truthy_str\<close> is the
  truthiness of \<open>process.env.X\<close> (set and not empty), and \<open>orElse v d\<close> is \<open>v || d\<close>.
\<close>

type_synonym env = "string \<Rightarrow> string option"

definition truthy_str :: "string option \<Rightarrow> bool" where
  "truthy_str v = (case v of None \<Rightarrow> False | Some s \<Rightarrow> s \<noteq> [])"

definition orElse :: "string option \<Rightarrow> string \<Rightarrow> string" where
  "orElse v d = (case v of None \<Rightarrow> d | Some s \<Rightarrow> if s = [] then d else s)"

definition NO_TOKEN :: string where
  "NO_TOKEN = ''No GitLab token found. Please set CLAUDE_BOT_TOKEN or GITLAB_TOKEN in CI/CD variables.''"

definition NO_PROJECT_ID :: string where
  "NO_PROJECT_ID = ''CI_PROJECT_ID environment variable is required''"

definition NO_IID :: string where
  "NO_IID = ''No MR or Issue IID found. Ensure CI_MERGE_REQUEST_IID or CI_ISSUE_IID is set.''"

definition iidSource :: "env \<Rightarrow> string" where
  "iidSource e =
     (if truthy_str (e ''CI_MERGE_REQUEST_IID'')
      then orElse (e ''CI_MERGE_REQUEST_IID'') []
      else orElse (e ''CI_ISSUE_IID'') ''0'')"

definition tokenOf :: "env \<Rightarrow> string" where
  "tokenOf e =
     orElse (e ''GITLAB_TOKEN'') (orElse (e ''CLAUDE_BOT_TOKEN'') (orElse (e ''CI_JOB_TOKEN'') []))"

definition buildContext :: "env \<Rightarrow> GitLabContext" where
  "buildContext e =
     \<lparr> projectId = orElse (e ''CI_PROJECT_ID'') [],
       projectPath = orElse (e ''CI_PROJECT_PATH'') [],
       projectUrl = orElse (e ''CI_PROJECT_URL'') [],
       webUrl = orElse (e ''CI_PROJECT_URL'') [],
       isMR = truthy_str (e ''CI_MERGE_REQUEST_IID''),
       iid = parseInt (iidSource e),
       triggerUser = orElse (e ''GITLAB_USER_LOGIN'') (orElse (e ''CI_COMMIT_AUTHOR'') []),
       triggerUsername = orElse (e ''GITLAB_USER_LOGIN'') (orElse (e ''CI_COMMIT_AUTHOR'') []),
       triggerPhrase = orElse (e ''CLAUDE_TRIGGER_PHRASE'') ''@claude'',
       defaultBranch = orElse (e ''CI_DEFAULT_BRANCH'') ''main'',
       sourceBranch = e ''CI_MERGE_REQUEST_SOURCE_BRANCH_NAME'',
       targetBranch = e ''CI_MERGE_REQUEST_TARGET_BRANCH_NAME'',
       jobId = orElse (e ''CI_JOB_ID'') [],
       jobUrl = orElse (e ''CI_JOB_URL'') [],
       pipelineId = orElse (e ''CI_PIPELINE_ID'') [],
       pipelineUrl = orElse (e ''CI_PIPELINE_URL'') [],
       token = tokenOf e,
       apiUrl = orElse (e ''CI_API_V4_URL'') ''https://gitlab.com/api/v4'' \<rparr>"

text \<open>
  \<open>parseGitLabContext\<close>: each \<open>throw\<close> of the source is an \<open>Inl\<close> with its message, in
  the order of the source. The last guard is \<open>!context.iid && context.iid !== 0\<close>.
\<close>

definition parseGitLabContext :: "env \<Rightarrow> string + GitLabContext" where
  "parseGitLabContext e =
     (if tokenOf e = [] then Inl NO_TOKEN
      else let context = buildContext e in
        if projectId context = [] then Inl NO_PROJECT_ID
        else if \<not> truthy_num (iid context) \<and> iid context \<noteq> Num 0 then Inl NO_IID
        else Inr context)"

section \<open>Notes and discussions (types.ts)\<close>

text \<open>
  The fields the code guards before use are optional here: a note's \<open>author\<close>, the author's
  \<open>username\<close> and the note's \<open>body\<close> may be missing, as may a discussion's \<open>notes\<close> and
  \<open>resolved\<close>.
\<close>

record GitLabUser =
  user_id :: int
  username :: "string option"
  user_name :: string

record GitLabNote =
  note_id :: int
  body :: "string option"
  author :: "GitLabUser option"
  created_at :: string
  system :: bool

record GitLabDiscussion =
  discussion_id :: string
  individual_note :: bool
  discussion_notes :: "GitLabNote list option"
  resolved :: "bool option"

text \<open>\<open>discussion.notes || []\<close> and \<open>discussion.resolved || false\<close>.\<close>

definition notesOf :: "GitLabDiscussion \<Rightarrow> GitLabNote list" where
  "notesOf discussion = (case discussion_notes discussion of None \<Rightarrow> [] | Some ns \<Rightarrow> ns)"

definition isResolvedOf :: "GitLabDiscussion \<Rightarrow> bool" where
  "isResolvedOf discussion = (case resolved discussion of None \<Rightarrow> False | Some r \<Rightarrow> r)"

text \<open>
  The pattern \<open>/claude[- ]?bot/i\<close>, tested anywhere in the user name: \<open>claude\<close>, then at
  most one hyphen or space, then \<open>bot\<close>, in any case of the letters. Without the flag
  \<open>u\<close> the flag \<open>i\<close> lets only the capital and the small ASCII form of a letter of
  the pattern match it.
\<close>

definition claudeBotPattern_test :: "string \<Rightarrow> bool" where
  "claudeBotPattern_test s =
     (let l = map asciiLowerChar s
      in includes_str l ''claudebot'' \<or> includes_str l ''claude-bot'' \<or>
         includes_str l ''claude bot'')"

text \<open>
  The guard of both loops: \<open>note.author\<close> is an object with a string \<open>username\<close> that the
  pattern matches.
\<close>

definition isClaudeNote :: "GitLabNote \<Rightarrow> bool" where
  "isClaudeNote note =
     (case author note of
        None \<Rightarrow> False
      | Some a \<Rightarrow> (case username a of None \<Rightarrow> False | Some u \<Rightarrow> claudeBotPattern_test u))"

text \<open>\<open>note.body && isValidTrigger(note.body, context)\<close>: an empty body is falsy.\<close>

definition isTriggerNote :: "GitLabContext \<Rightarrow> GitLabNote \<Rightarrow> bool" where
  "isTriggerNote context note =
     (case body note of None \<Rightarrow> False | Some b \<Rightarrow> b \<noteq> [] \<and> isValidTrigger b context)"

section \<open>The trigger check (api.ts, checkTrigger)\<close>

record TriggerComment =
  tc_note :: GitLabNote
  tc_discussionId :: string
  hasClaudeReply :: bool

datatype triggerType = Comment | Assignment | Label

record TriggerCheckResult =
  shouldRun :: bool
  reason :: string
  triggerType :: "triggerType option"
  triggerComments_r :: "TriggerComment list"
  hasExistingResponse :: bool

record GitLabEntity =
  assignee :: "GitLabUser option"
  assignees :: "GitLabUser list option"
  labels :: "string list option"

text \<open>
  What the server answers to the calls of one check: an error (the rendering of the thrown
  value) or the data. The list of discussions may be null.
\<close>

record GitLabServer =
  mergeRequestDiscussions_all :: "string + GitLabDiscussion list option"
  issueDiscussions_all :: "string + GitLabDiscussion list option"
  mergeRequests_show :: "string + GitLabEntity"
  issues_show :: "string + GitLabEntity"

text \<open>The inner loop over the notes of one discussion.\<close>

fun scanNotes ::
  "GitLabContext \<Rightarrow> GitLabNote list \<Rightarrow> bool \<Rightarrow> GitLabNote list \<Rightarrow> bool \<times> GitLabNote list" where
  "scanNotes context [] hasReply triggerNotesInDiscussion = (hasReply, triggerNotesInDiscussion)"
| "scanNotes context (note # rest) hasReply triggerNotesInDiscussion =
     scanNotes context rest
       (if isClaudeNote note then True else hasReply)
       (if isTriggerNote context note then triggerNotesInDiscussion @ [note]
        else triggerNotesInDiscussion)"

text \<open>The outer loop over the discussions, pushing one entry for each trigger note.\<close>

fun scanDiscussions ::
  "GitLabContext \<Rightarrow> GitLabDiscussion list \<Rightarrow> TriggerComment list \<Rightarrow> TriggerComment list" where
  "scanDiscussions context [] triggerComments = triggerComments"
| "scanDiscussions context (discussion # rest) triggerComments =
     (case scanNotes context (notesOf discussion) False [] of
        (hasReply, triggerNotesInDiscussion) \<Rightarrow>
          scanDiscussions context rest
            (triggerComments @
             map (\<lambda>triggerNote. \<lparr> tc_note = triggerNote,
                                 tc_discussionId = discussion_id discussion,
                                 hasClaudeReply = hasReply \<rparr>)
               triggerNotesInDiscussion))"

fun showDigits :: "nat \<Rightarrow> string" where
  "showDigits n =
     (if n < 10 then [''0123456789'' ! n]
      else showDigits (n div 10) @ [''0123456789'' ! (n mod 10)])"

declare showDigits.simps [simp del]

definition errorResult :: "string \<Rightarrow> TriggerCheckResult" where
  "errorResult error =
     \<lparr> shouldRun = False,
       reason = ''Error checking trigger: '' @ error,
       triggerType = None,
       triggerComments_r = [],
       hasExistingResponse = False \<rparr>"

definition isAssigned :: "GitLabEntity \<Rightarrow> bool" where
  "isAssigned mr =
     ((case assignee mr of None \<Rightarrow> False | Some a \<Rightarrow> username a = Some ''claude-bot'') \<or>
      (case assignees mr of
         None \<Rightarrow> False
       | Some as \<Rightarrow> list_ex (\<lambda>a. username a = Some ''claude-bot'') as))"

definition hasClaudeLabel :: "GitLabEntity \<Rightarrow> bool" where
  "hasClaudeLabel entity =
     (case labels entity of None \<Rightarrow> False | Some ls \<Rightarrow> ''claude'' \<in> set ls)"

definition checkLabel :: "GitLabServer \<Rightarrow> GitLabContext \<Rightarrow> TriggerCheckResult" where
  "checkLabel server context =
     (case (if isMR context then mergeRequests_show server else issues_show server) of
        Inl error \<Rightarrow> errorResult error
      | Inr entity \<Rightarrow>
          if hasClaudeLabel entity
          then \<lparr> shouldRun = True, reason = ''Found claude label'',
                 triggerType = Some Label, triggerComments_r = [],
                 hasExistingResponse = False \<rparr>
          else \<lparr> shouldRun = False, reason = ''No trigger found'',
                 triggerType = None, triggerComments_r = [],
                 hasExistingResponse = False \<rparr>)"

definition checkAssignment :: "GitLabServer \<Rightarrow> GitLabContext \<Rightarrow> TriggerCheckResult" where
  "checkAssignment server context =
     (if isMR context
      then (case mergeRequests_show server of
              Inl error \<Rightarrow> errorResult error
            | Inr mr \<Rightarrow>
                if isAssigned mr
                then \<lparr> shouldRun = True, reason = ''Claude bot is assigned'',
                       triggerType = Some Assignment, triggerComments_r = [],
                       hasExistingResponse = False \<rparr>
                else checkLabel server context)
      else checkLabel server context)"

definition fetchDiscussions ::
  "GitLabServer \<Rightarrow> GitLabContext \<Rightarrow> string + GitLabDiscussion list option" where
  "fetchDiscussions server context =
     (if isMR context then mergeRequestDiscussions_all server
      else issueDiscussions_all server)"

definition checkTrigger :: "GitLabServer \<Rightarrow> GitLabContext \<Rightarrow> TriggerCheckResult" where
  "checkTrigger server context =
     (case fetchDiscussions server context of
        Inl error \<Rightarrow> errorResult error
      | Inr discussions \<Rightarrow>
          (let triggerComments =
                 (case discussions of
                    None \<Rightarrow> []
                  | Some ds \<Rightarrow> if length ds > 0 then scanDiscussions context ds [] else []);
               newTriggers = filter (\<lambda>t. \<not> hasClaudeReply t) triggerComments
           in if length newTriggers > 0
              then \<lparr> shouldRun = True,
                     reason = ''Found '' @ showDigits (length newTriggers) @
                              '' new trigger comment(s) without Claude replies'',
                     triggerType = Some Comment,
                     triggerComments_r = newTriggers,
                     hasExistingResponse = list_ex hasClaudeReply triggerComments \<rparr>
              else if length triggerComments > 0
              then \<lparr> shouldRun = False,
                     reason = ''All trigger comments already have Claude replies'',
                     triggerType = Some Comment,
                     triggerComments_r = [],
                     hasExistingResponse = True \<rparr>
              else checkAssignment server context))"

text \<open>
  The words of the specification, for comparison with the loops: a discussion has an agent
  reply when one of its notes is by the agent identity, and the new triggers are the
  trigger notes of the discussions without one.
\<close>

definition hasAgentReply :: "GitLabDiscussion \<Rightarrow> bool" where
  "hasAgentReply discussion = (\<exists>note \<in> set (notesOf discussion). isClaudeNote note)"

definition hasTrigger :: "GitLabContext \<Rightarrow> GitLabDiscussion \<Rightarrow> bool" where
  "hasTrigger context discussion =
     (\<exists>note \<in> set (notesOf discussion). isTriggerNote context note)"

definition unansweredTriggers ::
  "GitLabContext \<Rightarrow> GitLabDiscussion list \<Rightarrow> TriggerComment list" where
  "unansweredTriggers context ds =
     concat (map (\<lambda>d. map (\<lambda>n. \<lparr> tc_note = n, tc_discussionId = discussion_id d,
                                  hasClaudeReply = False \<rparr>)
                       (filter (\<lambda>n. isTriggerNote context n \<and> \<not> hasAgentReply d) (notesOf d)))
                 ds)"

section \<open>The comment classifier (api.ts, categorizeComments)\<close>

record CategorizedComments =
  triggerComments :: "GitLabNote list"
  contextComments :: "GitLabNote list"
  resolvedComments :: "GitLabNote list"
  claudeReplies :: "GitLabNote list"

text \<open>First pass: the notes of the agent identity go to \<open>claudeReplies\<close>.\<close>

fun firstPass ::
  "GitLabNote list \<Rightarrow> CategorizedComments \<times> bool \<Rightarrow> CategorizedComments \<times> bool" where
  "firstPass [] (acc, hasReply) = (acc, hasReply)"
| "firstPass (note # rest) (acc, hasReply) =
     (if isClaudeNote note
      then firstPass rest (acc\<lparr>claudeReplies := claudeReplies acc @ [note]\<rparr>, True)
      else firstPass rest (acc, hasReply))"

text \<open>Second pass: every other note goes to one of the three remaining lists.\<close>

fun secondPass ::
  "GitLabContext \<Rightarrow> bool \<Rightarrow> GitLabNote list \<Rightarrow> CategorizedComments \<Rightarrow> CategorizedComments" where
  "secondPass context isResolved [] acc = acc"
| "secondPass context isResolved (note # rest) acc =
     secondPass context isResolved rest
       (if isClaudeNote note then acc
        else if isTriggerNote context note
        then acc\<lparr>triggerComments := triggerComments acc @ [note]\<rparr>
        else if isResolved
        then acc\<lparr>resolvedComments := resolvedComments acc @ [note]\<rparr>
        else acc\<lparr>contextComments := contextComments acc @ [note]\<rparr>)"

fun categorizeLoop ::
  "GitLabContext \<Rightarrow> GitLabDiscussion list \<Rightarrow> CategorizedComments \<Rightarrow> CategorizedComments" where
  "categorizeLoop context [] acc = acc"
| "categorizeLoop context (discussion # rest) acc =
     categorizeLoop context rest
       (secondPass context (isResolvedOf discussion) (notesOf discussion)
          (fst (firstPass (notesOf discussion) (acc, False))))"

definition categorizeComments ::
  "GitLabDiscussion list \<Rightarrow> GitLabContext \<Rightarrow> CategorizedComments" where
  "categorizeComments discussions context =
     categorizeLoop context discussions
       \<lparr> triggerComments = [], contextComments = [], resolvedComments = [],
         claudeReplies = [] \<rparr>"

definition allNotes :: "GitLabDiscussion list \<Rightarrow> GitLabNote list" where
  "allNotes discussions = concat (map notesOf discussions)"

section \<open>Requests to the review host (api.ts)\<close>

text \<open>
  The calls the wrapper makes on the client library, as values: creating a note on a merge
  request or an issue (project, iid, body) and editing one (project, iid, note id, body).
\<close>

datatype GitLabRequest =
    MergeRequestNotes_create string jsnumber string
  | IssueNotes_create string jsnumber string
  | MergeRequestNotes_edit string jsnumber jsnumber string
  | IssueNotes_edit string jsnumber jsnumber string

record CreateCommentParams =
  c_projectId :: string
  c_isMR :: bool
  c_iid :: jsnumber
  c_body :: string

record CreateReplyParams =
  r_projectId :: string
  r_isMR :: bool
  r_iid :: jsnumber
  r_discussionId :: string
  r_noteId :: jsnumber
  r_body :: string


definition createComment :: "CreateCommentParams \<Rightarrow> GitLabRequest" where
  "createComment params =
     (if c_isMR params
      then MergeRequestNotes_create (c_projectId params) (c_iid params) (c_body params)
      else IssueNotes_create (c_projectId params) (c_iid params) (c_body params))"

definition createReply :: "CreateReplyParams \<Rightarrow> GitLabRequest" where
  "createReply params =
     (let replyBody = ''> In reply to discussion '' @ r_discussionId params @
                      [CHR 0x0A, CHR 0x0A] @ r_body params
      in if r_isMR params
         then MergeRequestNotes_create (r_projectId params) (r_iid params) replyBody
         else IssueNotes_create (r_projectId params) (r_iid params) replyBody)"


section \<open>The progress relay (comment-watcher.ts)\<close>












text \<open>The payloads of the edits sent, in order.\<close>

fun payload :: "GitLabRequest \<Rightarrow> string" where
  "payload (MergeRequestNotes_create _ _ b) = b"
| "payload (IssueNotes_create _ _ b) = b"
| "payload (MergeRequestNotes_edit _ _ _ b) = b"
| "payload (IssueNotes_edit _ _ _ b) = b"

section \<open>Sample data\<close>

text \<open>Notes, discussions and a server as the tests of the repository build them.\<close>

definition mkNote :: "int \<Rightarrow> string \<Rightarrow> string \<Rightarrow> GitLabNote" where
  "mkNote i u b =
     \<lparr> note_id = i, body = Some b,
       author = Some \<lparr> user_id = 1, username = Some u, user_name = u \<rparr>,
       created_at = ''2024-01-01T00:00:00Z'', system = False \<rparr>"

definition mkDiscussion :: "string \<Rightarrow> bool \<Rightarrow> GitLabNote list \<Rightarrow> GitLabDiscussion" where
  "mkDiscussion d r ns =
     \<lparr> discussion_id = d, individual_note = False, discussion_notes = Some ns,
       resolved = Some r \<rparr>"

definition mkServer :: "GitLabDiscussion list \<Rightarrow> GitLabServer" where
  "mkServer ds =
     \<lparr> mergeRequestDiscussions_all = Inr (Some ds),
       issueDiscussions_all = Inr (Some ds),
       mergeRequests_show = Inr \<lparr> assignee = None, assignees = None, labels = Some [''claude''] \<rparr>,
       issues_show = Inr \<lparr> assignee = None, assignees = None, labels = Some [''claude''] \<rparr> \<rparr>"

definition sampleContext :: GitLabContext where
  "sampleContext =
     buildContext [''CI_PROJECT_ID'' \<mapsto> ''123'', ''CLAUDE_BOT_TOKEN'' \<mapsto> ''test-token'',
                   ''CI_MERGE_REQUEST_IID'' \<mapsto> ''42'']"

definition answeredDiscussion :: GitLabDiscussion where
  "answeredDiscussion =
     mkDiscussion ''d-answered'' False
       [mkNote 1 ''alice'' ''@claude please review'', mkNote 2 ''claude-bot'' ''Done.'']"

definition openDiscussion :: GitLabDiscussion where
  "openDiscussion =
     mkDiscussion ''d-open'' False [mkNote 3 ''bob'' ''Hey @CLAUDE can you help?'']"

definition resolvedDiscussion :: GitLabDiscussion where
  "resolvedDiscussion =
     mkDiscussion ''d-resolved'' True
       [mkNote 4 ''carol'' ''Looks good to me'', mkNote 5 ''dave'' ''@claude what about this?'']"

text \<open>Malformed notes: one without an author, one without a body.\<close>

definition noAuthorNote :: GitLabNote where
  "noAuthorNote =
     \<lparr> note_id = 6, body = Some ''@claude fix this'', author = None,
       created_at = ''2024-01-02T00:00:00Z'', system = False \<rparr>"

definition noBodyNote :: GitLabNote where
  "noBodyNote =
     \<lparr> note_id = 7, body = None,
       author = Some \<lparr> user_id = 2, username = Some ''claude-bot'', user_name = ''Claude'' \<rparr>,
       created_at = ''2024-01-03T00:00:00Z'', system = False \<rparr>"

definition malformedDiscussion :: GitLabDiscussion where
  "malformedDiscussion = mkDiscussion ''d-malformed'' True [noAuthorNote, noBodyNote]"



text \<open>Environments of a job with no IID variable, and with one that is not a number.\<close>

definition envNoIid :: env where
  "envNoIid = [''CI_PROJECT_ID'' \<mapsto> ''123'', ''CLAUDE_BOT_TOKEN'' \<mapsto> ''test-token'']"

definition envBadIid :: env where
  "envBadIid =
     [''CI_PROJECT_ID'' \<mapsto> ''123'', ''CLAUDE_BOT_TOKEN'' \<mapsto> ''test-token'',
      ''CI_ISSUE_IID'' \<mapsto> ''abc'']"

section \<open>Facts about strings\<close>



lemma char_of_eq_iff: "(char_of (n :: nat) = c) = (n mod 256 = of_char c)"
proof -
  have "(char_of n = c) = ((of_char (char_of n :: char) :: nat) = of_char c)"
    by (simp only: of_char_eq_iff)
  then show ?thesis by (simp add: take_bit_eq_mod)
qed

lemma eq_char_of_iff: "(c = char_of (n :: nat)) = (of_char c = n mod 256)"
  using char_of_eq_iff [of n c] by auto

lemma isAscii_of_char: "isAscii c = ((of_char c :: nat) < 0x80)"
  by (cases c) (simp add: isAscii_def)


lemma simpleLower_ascii:
  "c < 0x80 \<Longrightarrow>
     simpleLower c lowerRanges = (if 0x41 \<le> c \<and> c \<le> 0x5A then c + 0x20 else c)"
  by (simp add: lowerRanges_def)

lemma lowercaseMapping_ascii:
  "c < 0x80 \<Longrightarrow> lowercaseMapping c = [if 0x41 \<le> c \<and> c \<le> 0x5A then c + 0x20 else c]"
  by (simp add: lowercaseMapping_def simpleLower_ascii)

lemma utf8_from_ascii:
  "list_all isAscii s \<Longrightarrow> utf8_from 0 v least s = Some (map of_char s)"
  by (induction s arbitrary: v least) (simp_all add: isAscii_of_char Let_def)

lemma lowerFrom_ascii:
  "list_all (\<lambda>c. c < 0x80) cps \<Longrightarrow>
     lowerFrom before cps =
       map (\<lambda>c. if 0x41 \<le> c \<and> c \<le> 0x5A then c + 0x20 else c) cps"
  by (induction cps arbitrary: before) (simp_all add: lowercaseMapping_ascii)

lemma encode_ascii:
  "list_all (\<lambda>c. c < 0x80) cps \<Longrightarrow> concat (map utf8_encode cps) = map char_of cps"
  by (induction cps) (simp_all add: utf8_encode_def)

lemma toLowerCase_ascii:
  assumes "list_all isAscii s"
  shows "toLowerCase s = map asciiLowerChar s"
proof -
  let ?f = "\<lambda>c::nat. if 0x41 \<le> c \<and> c \<le> 0x5A then c + 0x20 else c"
  from assms have small: "list_all (\<lambda>c. c < 0x80) (map of_char s :: nat list)"
    by (simp add: list_all_iff isAscii_of_char)
  then have small': "list_all (\<lambda>c. c < 0x80) (map ?f (map of_char s :: nat list))"
    by (auto simp: list_all_iff)
  have "toLowerCase s = concat (map utf8_encode (lowerFrom [] (map of_char s)))"
    by (simp add: toLowerCase_def utf8_decode_def utf8_from_ascii [OF assms])
  also have "\<dots> = map char_of (map ?f (map of_char s :: nat list))"
    by (simp only: lowerFrom_ascii [OF small] encode_ascii [OF small'])
  also have "\<dots> = map asciiLowerChar s"
    by (simp add: asciiLowerChar_def isUpperAscii_def)
  finally show ?thesis .
qed

lemma utf8_from_nonempty:
  "utf8_from n v least s = Some cps \<Longrightarrow> s \<noteq> [] \<Longrightarrow> cps \<noteq> []"
proof (induction s arbitrary: n v least cps)
  case Nil
  then show ?case by simp
next
  case (Cons c cs)
  show ?case
  proof (cases "cs = []")
    case True
    with Cons.prems(1) show ?thesis
      by (auto simp: Let_def split: if_splits)
  next
    case False
    with Cons.prems(1) Cons.IH show ?thesis
      by (auto simp: Let_def split: if_splits)
  qed
qed

lemma lowerFrom_Nil_iff: "(lowerFrom before cps = []) = (cps = [])"
  by (cases cps) (simp_all add: lowercaseMapping_def)

lemma utf8_encode_nonempty: "utf8_encode c \<noteq> []"
  by (simp add: utf8_encode_def)

lemma toLowerCase_Nil_iff: "(toLowerCase s = []) = (s = [])"
proof (cases "utf8_decode s")
  case None
  then show ?thesis by (simp add: toLowerCase_def)
next
  case (Some cps)
  have "(cps = []) = (s = [])"
  proof
    assume "cps = []"
    with Some show "s = []"
      using utf8_from_nonempty [of 0 0 0 s cps] by (auto simp: utf8_decode_def)
  next
    assume "s = []"
    with Some show "cps = []" by (simp add: utf8_decode_def)
  qed
  moreover have "(concat (map utf8_encode xs) = []) = (xs = [])" for xs
    by (cases xs) (simp_all add: utf8_encode_nonempty)
  ultimately show ?thesis
    using Some by (simp add: toLowerCase_def lowerFrom_Nil_iff)
qed


lemma latin_e_acute:
  "lowercaseMapping 0xC9 = [0xE9]" "lowercaseMapping 0xE9 = [0xE9]"
  by (simp_all add: lowercaseMapping_def lowerRanges_def)

lemmas utf8_eval = toLowerCase_def utf8_decode_def utf8_encode_def Let_def char_of_eq_iff
  eq_char_of_iff lowercaseMapping_ascii



lemma toLowerCase_cafe:
  "toLowerCase (''CAF'' @ [CHR 0xC3, CHR 0x89] @ '' time'') =
     ''caf'' @ [CHR 0xC3, CHR 0xA9] @ '' time''"
  "toLowerCase (''caf'' @ [CHR 0xC3, CHR 0xA9]) = ''caf'' @ [CHR 0xC3, CHR 0xA9]"
  by (simp_all add: utf8_eval latin_e_acute)

lemma toLowerCase_Nil: "toLowerCase [] = []"
  by (simp add: toLowerCase_def utf8_decode_def)

lemmas ascii_eval =
  toLowerCase_ascii isAscii_def asciiLowerChar_def isUpperAscii_def char_of_eq_iff
  eq_char_of_iff




section \<open>The loops of the trigger check as list functions\<close>

lemma scanNotes_eq:
  "scanNotes context ns h t =
     (h \<or> (\<exists>n \<in> set ns. isClaudeNote n), t @ filter (isTriggerNote context) ns)"
  by (induction ns arbitrary: h t) auto

lemma scanDiscussions_eq:
  "scanDiscussions context ds acc =
     acc @ concat (map (\<lambda>d. map (\<lambda>n. \<lparr> tc_note = n, tc_discussionId = discussion_id d,
                                        hasClaudeReply = hasAgentReply d \<rparr>)
                             (filter (isTriggerNote context) (notesOf d))) ds)"
  by (induction ds arbitrary: acc) (simp_all add: scanNotes_eq hasAgentReply_def)

lemma newTriggers_eq:
  "filter (\<lambda>t. \<not> hasClaudeReply t) (scanDiscussions context ds []) =
     unansweredTriggers context ds"
  unfolding scanDiscussions_eq unansweredTriggers_def
  by (induction ds) (simp_all add: filter_map comp_def)

lemma scanDiscussions_empty_iff:
  "(scanDiscussions context ds [] = []) = (\<forall>d \<in> set ds. \<not> hasTrigger context d)"
  unfolding scanDiscussions_eq hasTrigger_def
  by (induction ds) (auto simp: filter_empty_conv)

lemma unansweredTriggers_empty_iff:
  "(unansweredTriggers context ds = []) =
     (\<forall>d \<in> set ds. hasTrigger context d \<longrightarrow> hasAgentReply d)"
  unfolding unansweredTriggers_def hasTrigger_def
  by (induction ds) (auto simp: filter_empty_conv)

lemma checkTrigger_triggerComments:
  assumes "fetchDiscussions server context = Inr (Some ds)"
  shows "triggerComments_r (checkTrigger server context) = unansweredTriggers context ds"
proof (cases "unansweredTriggers context ds = []")
  case False
  then have "ds \<noteq> []" by (auto simp: unansweredTriggers_def)
  with False show ?thesis
    by (simp add: checkTrigger_def assms newTriggers_eq Let_def)
next
  case True
  have "triggerComments_r (checkLabel server context) = []"
    by (simp add: checkLabel_def errorResult_def split: sum.split)
  then have "triggerComments_r (checkAssignment server context) = []"
    by (simp add: checkAssignment_def errorResult_def split: sum.split)
  with True show ?thesis
    by (simp add: checkTrigger_def assms newTriggers_eq Let_def)
qed

lemma checkTrigger_runs:
  assumes "fetchDiscussions server context = Inr (Some ds)"
    and "d \<in> set ds" and "hasTrigger context d" and "\<not> hasAgentReply d"
  shows "shouldRun (checkTrigger server context)"
    and "triggerType (checkTrigger server context) = Some Comment"
proof -
  from assms(2-4) have new: "unansweredTriggers context ds \<noteq> []"
    by (auto simp: unansweredTriggers_empty_iff)
  from assms(2) have "ds \<noteq> []" by auto
  with new show "shouldRun (checkTrigger server context)"
    and "triggerType (checkTrigger server context) = Some Comment"
    by (simp_all add: checkTrigger_def assms(1) newTriggers_eq Let_def)
qed

lemma set_unansweredTriggers:
  "set (unansweredTriggers context ds) =
     {\<lparr> tc_note = n, tc_discussionId = discussion_id d, hasClaudeReply = False \<rparr> | n d.
        d \<in> set ds \<and> n \<in> set (notesOf d) \<and> isTriggerNote context n \<and> \<not> hasAgentReply d}"
  unfolding unansweredTriggers_def by auto

lemma unansweredTriggers_pair:
  assumes "\<not> hasAgentReply d1" and "hasAgentReply d2"
  shows "unansweredTriggers context [d1, d2] =
           map (\<lambda>n. \<lparr> tc_note = n, tc_discussionId = discussion_id d1, hasClaudeReply = False \<rparr>)
             (filter (isTriggerNote context) (notesOf d1))"
    and "unansweredTriggers context [d2, d1] =
           map (\<lambda>n. \<lparr> tc_note = n, tc_discussionId = discussion_id d1, hasClaudeReply = False \<rparr>)
             (filter (isTriggerNote context) (notesOf d1))"
  using assms by (simp_all add: unansweredTriggers_def)

section \<open>The loops of the classifier as list functions\<close>

lemma firstPass_eq:
  "firstPass ns (acc, h) =
     (acc\<lparr>claudeReplies := claudeReplies acc @ filter isClaudeNote ns\<rparr>,
      h \<or> (\<exists>n \<in> set ns. isClaudeNote n))"
  by (induction ns arbitrary: acc h) auto

lemma secondPass_eq:
  "secondPass context r ns acc =
     acc\<lparr>triggerComments := triggerComments acc @
            filter (\<lambda>n. \<not> isClaudeNote n \<and> isTriggerNote context n) ns,
         contextComments := contextComments acc @
            filter (\<lambda>n. \<not> isClaudeNote n \<and> \<not> isTriggerNote context n \<and> \<not> r) ns,
         resolvedComments := resolvedComments acc @
            filter (\<lambda>n. \<not> isClaudeNote n \<and> \<not> isTriggerNote context n \<and> r) ns\<rparr>"
  by (induction ns arbitrary: acc) auto

lemma categorizeLoop_eq:
  "categorizeLoop context ds acc =
     \<lparr> triggerComments = triggerComments acc @
         concat (map (\<lambda>d. filter (\<lambda>n. \<not> isClaudeNote n \<and> isTriggerNote context n)
                             (notesOf d)) ds),
       contextComments = contextComments acc @
         concat (map (\<lambda>d. filter (\<lambda>n. \<not> isClaudeNote n \<and> \<not> isTriggerNote context n \<and>
                                       \<not> isResolvedOf d) (notesOf d)) ds),
       resolvedComments = resolvedComments acc @
         concat (map (\<lambda>d. filter (\<lambda>n. \<not> isClaudeNote n \<and> \<not> isTriggerNote context n \<and>
                                       isResolvedOf d) (notesOf d)) ds),
       claudeReplies = claudeReplies acc @
         concat (map (\<lambda>d. filter isClaudeNote (notesOf d)) ds) \<rparr>"
  by (induction ds arbitrary: acc) (simp_all add: firstPass_eq secondPass_eq)

lemma triggerComments_eq:
  "triggerComments (categorizeComments ds context) =
     concat (map (\<lambda>d. filter (\<lambda>n. \<not> isClaudeNote n \<and> isTriggerNote context n)
                         (notesOf d)) ds)"
  by (simp add: categorizeComments_def categorizeLoop_eq)

lemma contextComments_eq:
  "contextComments (categorizeComments ds context) =
     concat (map (\<lambda>d. filter (\<lambda>n. \<not> isClaudeNote n \<and> \<not> isTriggerNote context n \<and>
                                   \<not> isResolvedOf d) (notesOf d)) ds)"
  by (simp add: categorizeComments_def categorizeLoop_eq)

lemma resolvedComments_eq:
  "resolvedComments (categorizeComments ds context) =
     concat (map (\<lambda>d. filter (\<lambda>n. \<not> isClaudeNote n \<and> \<not> isTriggerNote context n \<and>
                                   isResolvedOf d) (notesOf d)) ds)"
  by (simp add: categorizeComments_def categorizeLoop_eq)

lemma claudeReplies_eq:
  "claudeReplies (categorizeComments ds context) = filter isClaudeNote (allNotes ds)"
  by (simp add: categorizeComments_def categorizeLoop_eq allNotes_def filter_concat comp_def)

lemmas categorized_eqs =
  triggerComments_eq contextComments_eq resolvedComments_eq claudeReplies_eq

lemma set_triggerComments:
  "set (triggerComments (categorizeComments ds context)) =
     {n \<in> set (allNotes ds). \<not> isClaudeNote n \<and> isTriggerNote context n}"
  by (auto simp: triggerComments_eq allNotes_def)

lemma set_contextComments:
  "set (contextComments (categorizeComments ds context)) =
     {n. \<exists>d \<in> set ds. n \<in> set (notesOf d) \<and> \<not> isClaudeNote n \<and>
           \<not> isTriggerNote context n \<and> \<not> isResolvedOf d}"
  by (auto simp: contextComments_eq)

lemma set_resolvedComments:
  "set (resolvedComments (categorizeComments ds context)) =
     {n. \<exists>d \<in> set ds. n \<in> set (notesOf d) \<and> \<not> isClaudeNote n \<and>
           \<not> isTriggerNote context n \<and> isResolvedOf d}"
  by (auto simp: resolvedComments_eq)

lemma set_claudeReplies:
  "set (claudeReplies (categorizeComments ds context)) =
     {n \<in> set (allNotes ds). isClaudeNote n}"
  by (auto simp: claudeReplies_eq)

lemma mset_three_way:
  "mset (filter (\<lambda>n. \<not> isClaudeNote n \<and> isTriggerNote context n) ns) +
   mset (filter (\<lambda>n. \<not> isClaudeNote n \<and> \<not> isTriggerNote context n \<and> \<not> r) ns) +
   mset (filter (\<lambda>n. \<not> isClaudeNote n \<and> \<not> isTriggerNote context n \<and> r) ns) =
     mset (filter (\<lambda>n. \<not> isClaudeNote n) ns)"
  by (cases r; induction ns) simp_all

lemma mset_categorized:
  "mset (triggerComments (categorizeComments ds context)) +
   mset (contextComments (categorizeComments ds context)) +
   mset (resolvedComments (categorizeComments ds context)) =
     mset (filter (\<lambda>n. \<not> isClaudeNote n) (allNotes ds))"
proof (induction ds)
  case Nil
  show ?case by (simp add: categorized_eqs allNotes_def)
next
  case (Cons d ds)
  have "mset (triggerComments (categorizeComments (d # ds) context)) +
        mset (contextComments (categorizeComments (d # ds) context)) +
        mset (resolvedComments (categorizeComments (d # ds) context)) =
      (mset (filter (\<lambda>n. \<not> isClaudeNote n \<and> isTriggerNote context n) (notesOf d)) +
       mset (filter (\<lambda>n. \<not> isClaudeNote n \<and> \<not> isTriggerNote context n \<and>
                          \<not> isResolvedOf d) (notesOf d)) +
       mset (filter (\<lambda>n. \<not> isClaudeNote n \<and> \<not> isTriggerNote context n \<and>
                          isResolvedOf d) (notesOf d))) +
      (mset (triggerComments (categorizeComments ds context)) +
       mset (contextComments (categorizeComments ds context)) +
       mset (resolvedComments (categorizeComments ds context)))"
    by (simp add: categorized_eqs)
  also have "\<dots> = mset (filter (\<lambda>n. \<not> isClaudeNote n) (notesOf d)) +
      mset (filter (\<lambda>n. \<not> isClaudeNote n) (allNotes ds))"
    by (simp only: mset_three_way Cons.IH)
  also have "\<dots> = mset (filter (\<lambda>n. \<not> isClaudeNote n) (allNotes (d # ds)))"
    by (simp add: allNotes_def)
  finally show ?case .
qed

lemma context_resolved_disjoint:
  assumes "distinct (allNotes ds)"
  shows "set (contextComments (categorizeComments ds context)) \<inter>
         set (resolvedComments (categorizeComments ds context)) = {}"
  using assms
proof (induction ds)
  case Nil
  show ?case by (simp add: categorized_eqs)
next
  case (Cons d ds)
  from Cons.prems have sep: "set (notesOf d) \<inter> set (allNotes ds) = {}"
    and rest: "distinct (allNotes ds)"
    by (simp_all add: allNotes_def)
  have sub1: "set (contextComments (categorizeComments ds context)) \<subseteq> set (allNotes ds)"
    by (auto simp: set_contextComments allNotes_def)
  have sub2: "set (resolvedComments (categorizeComments ds context)) \<subseteq> set (allNotes ds)"
    by (auto simp: set_resolvedComments allNotes_def)
  from Cons.IH [OF rest] sep sub1 sub2 show ?case
    by (auto simp: categorized_eqs)
qed

lemma distinct_ids: "distinct (map note_id ns) \<Longrightarrow> distinct ns"
  by (simp add: distinct_map)

section \<open>Facts about the sample data\<close>

lemmas sample_defs =
  mkNote_def mkDiscussion_def mkServer_def sampleContext_def answeredDiscussion_def
  openDiscussion_def resolvedDiscussion_def noAuthorNote_def noBodyNote_def
  malformedDiscussion_def buildContext_def orElse_def truthy_str_def

lemmas note_defs =
  notesOf_def isResolvedOf_def isClaudeNote_def isTriggerNote_def isValidTrigger_def
  claudeBotPattern_test_def ascii_eval

lemma sampleContext_fields:
  "triggerPhrase sampleContext = ''@claude''" "isMR sampleContext"
  by (simp_all add: sample_defs)

lemma answeredDiscussion_facts:
  "hasTrigger sampleContext answeredDiscussion" "hasAgentReply answeredDiscussion"
  by (simp_all add: hasTrigger_def hasAgentReply_def sample_defs note_defs)

lemma openDiscussion_facts:
  "hasTrigger sampleContext openDiscussion" "\<not> hasAgentReply openDiscussion"
  by (simp_all add: hasTrigger_def hasAgentReply_def sample_defs note_defs)

lemma fetch_mkServer: "fetchDiscussions (mkServer ds) context = Inr (Some ds)"
  by (simp add: fetchDiscussions_def mkServer_def)

lemma checkTrigger_sample_reason:
  "reason (checkTrigger (mkServer [answeredDiscussion]) sampleContext) =
     ''All trigger comments already have Claude replies''"
  by (simp add: checkTrigger_def fetchDiscussions_def sample_defs note_defs)

lemma isValidTrigger_empty_body:
  "isValidTrigger [] context = (triggerPhrase context = [])"
  by (simp add: isValidTrigger_def toLowerCase_Nil toLowerCase_Nil_iff)

lemma buildContext_triggerPhrase: "triggerPhrase (buildContext e) \<noteq> []"
proof -
  have "orElse v ''@claude'' \<noteq> []" for v
    by (cases v) (simp_all add: orElse_def)
  then show ?thesis by (simp add: buildContext_def)
qed

lemma parseGitLabContext_Inr:
  "parseGitLabContext e = Inr context \<Longrightarrow> context = buildContext e"
  unfolding parseGitLabContext_def Let_def
  by (simp split: if_splits)

lemma parseGitLabContext_triggerPhrase:
  "parseGitLabContext e = Inr context \<Longrightarrow> triggerPhrase context \<noteq> []"
  using parseGitLabContext_Inr [of e "context"] buildContext_triggerPhrase [of e] by simp

lemma isClaudeNote_no_author: "author note = None \<Longrightarrow> \<not> isClaudeNote note"
  by (simp add: isClaudeNote_def)

lemma isTriggerNote_no_body:
  "body note = None \<or> body note = Some [] \<Longrightarrow> \<not> isTriggerNote context note"
  by (auto simp: isTriggerNote_def)

lemma note_in_allNotes: "d \<in> set ds \<Longrightarrow> note \<in> set (notesOf d) \<Longrightarrow> note \<in> set (allNotes ds)"
  by (auto simp: allNotes_def)

lemma sample_ids_distinct:
  "distinct (map note_id (allNotes [answeredDiscussion, resolvedDiscussion]))"
  by (simp add: allNotes_def notesOf_def sample_defs)

lemma in_triggerComments:
  "d \<in> set ds \<Longrightarrow> note \<in> set (notesOf d) \<Longrightarrow> \<not> isClaudeNote note \<Longrightarrow>
     isTriggerNote context note \<Longrightarrow>
     note \<in> set (triggerComments (categorizeComments ds context))"
  unfolding set_triggerComments by (auto simp: allNotes_def)

lemma in_by_resolution:
  "d \<in> set ds \<Longrightarrow> note \<in> set (notesOf d) \<Longrightarrow> \<not> isClaudeNote note \<Longrightarrow>
     \<not> isTriggerNote context note \<Longrightarrow>
     note \<in> set (if isResolvedOf d then resolvedComments (categorizeComments ds context)
                 else contextComments (categorizeComments ds context))"
  by (auto simp: set_resolvedComments set_contextComments)

lemma in_claudeReplies:
  "d \<in> set ds \<Longrightarrow> note \<in> set (notesOf d) \<Longrightarrow> isClaudeNote note \<Longrightarrow>
     note \<in> set (claudeReplies (categorizeComments ds context))"
  unfolding set_claudeReplies by (auto simp: allNotes_def)

lemma not_in_triggerComments:
  "\<not> isTriggerNote context note \<Longrightarrow>
     note \<notin> set (triggerComments (categorizeComments ds context))"
  unfolding set_triggerComments by simp

lemma not_in_claudeReplies:
  "\<not> isClaudeNote note \<Longrightarrow> note \<notin> set (claudeReplies (categorizeComments ds context))"
  unfolding set_claudeReplies by simp

lemma claude_not_in_others:
  "isClaudeNote note \<Longrightarrow>
     note \<notin> set (contextComments (categorizeComments ds context)) \<and>
     note \<notin> set (resolvedComments (categorizeComments ds context))"
  unfolding set_contextComments set_resolvedComments by simp

lemma malformed_sample:
  "malformedDiscussion \<in> set [malformedDiscussion]"
  "noAuthorNote \<in> set (notesOf malformedDiscussion)"
  "noBodyNote \<in> set (notesOf malformedDiscussion)"
  "author noAuthorNote = None"
  "body noBodyNote = None"
  "isTriggerNote sampleContext noAuthorNote"
  "isClaudeNote noBodyNote"
  "isResolvedOf malformedDiscussion"
  by (simp_all add: sample_defs note_defs)

lemmas parseInt_defs =
  parseInt_def isWhiteSpace_def signOf_def stripSign_def hasHexPrefix_def isRadixDigit_def
  radixDigit_def digitValue_def digitsValue_def

lemma parseInt_zero: "parseInt ''0'' = Num 0"
  by (simp add: parseInt_defs)

lemma parseInt_samples:
  "parseInt ''42'' = Num 42" "parseInt ''abc'' = NaN" "parseInt '' -7x'' = Num (- 7)"
  by (simp_all add: parseInt_defs)

lemma iid_guard: "(\<not> truthy_num n \<and> n \<noteq> Num 0) = (n = NaN)"
  by (cases n) auto

lemma parseGitLabContext_cases:
  "parseGitLabContext e =
     (if tokenOf e = [] then Inl NO_TOKEN
      else if orElse (e ''CI_PROJECT_ID'') [] = [] then Inl NO_PROJECT_ID
      else if parseInt (iidSource e) = NaN then Inl NO_IID
      else Inr (buildContext e))"
proof -
  have "projectId (buildContext e) = orElse (e ''CI_PROJECT_ID'') []"
    and "iid (buildContext e) = parseInt (iidSource e)"
    by (simp_all add: buildContext_def)
  then show ?thesis
    by (simp add: parseGitLabContext_def Let_def iid_guard)
qed

lemma messages_distinct:
  "NO_IID \<noteq> NO_TOKEN" "NO_IID \<noteq> NO_PROJECT_ID"
  by (simp_all add: NO_IID_def NO_TOKEN_def NO_PROJECT_ID_def)

lemma iidSource_unset:
  "\<not> truthy_str (e ''CI_MERGE_REQUEST_IID'') \<Longrightarrow> \<not> truthy_str (e ''CI_ISSUE_IID'') \<Longrightarrow>
     iidSource e = ''0''"
  by (auto simp: iidSource_def orElse_def truthy_str_def split: option.splits)









section \<open>The trigger detector\<close>




section \<open>Duplicate suppression\<close>

text \<open>
  C1, as the code has it. When the discussions were fetched, at least one of them holds a
  trigger note, and every discussion that holds a trigger note also holds a note by the
  agent identity, \<open>checkTrigger\<close> returns \<open>shouldRun = false\<close> and
  \<open>hasExistingResponse = true\<close> with no trigger comments, whatever the assignees and the
  labels are; its reason is the text \<open>All trigger comments already have Claude replies\<close>.
\<close>

theorem checkTrigger_answered:
  assumes "fetchDiscussions server context = Inr (Some ds)"
    and "\<exists>d \<in> set ds. hasTrigger context d"
    and "\<forall>d \<in> set ds. hasTrigger context d \<longrightarrow> hasAgentReply d"
  shows "checkTrigger server context =
           \<lparr> shouldRun = False,
             reason = ''All trigger comments already have Claude replies'',
             triggerType = Some Comment,
             triggerComments_r = [],
             hasExistingResponse = True \<rparr>"
proof -
  from assms(2) have nonempty: "ds \<noteq> []" by auto
  from assms(2) have some: "scanDiscussions context ds [] \<noteq> []"
    by (simp add: scanDiscussions_empty_iff)
  from assms(3) have none: "unansweredTriggers context ds = []"
    by (simp add: unansweredTriggers_empty_iff)
  show ?thesis
    using nonempty some none
    by (simp add: checkTrigger_def assms(1) newTriggers_eq)
qed

theorem checkTrigger_answered_witness:
  "checkTrigger (mkServer [answeredDiscussion]) sampleContext =
     \<lparr> shouldRun = False,
       reason = ''All trigger comments already have Claude replies'',
       triggerType = Some Comment,
       triggerComments_r = [],
       hasExistingResponse = True \<rparr>"
proof -
  have h1: "fetchDiscussions (mkServer [answeredDiscussion]) sampleContext =
      Inr (Some [answeredDiscussion])"
    by (rule fetch_mkServer)
  have h2: "\<exists>d \<in> set [answeredDiscussion]. hasTrigger sampleContext d"
    by (simp add: answeredDiscussion_facts)
  have h3: "\<forall>d \<in> set [answeredDiscussion]. hasTrigger sampleContext d \<longrightarrow> hasAgentReply d"
    by (simp add: answeredDiscussion_facts)
  show ?thesis by (rule checkTrigger_answered [OF h1 h2 h3])
qed

text \<open>
  The reason text of the claim is not the one the code returns: the sample discussion with
  an answered trigger meets every condition of the claim, and the reason differs.
\<close>

theorem checkTrigger_reason_counterexample:
  "\<not> (\<forall>server context ds.
         fetchDiscussions server context = Inr (Some ds) \<longrightarrow>
         (\<exists>d \<in> set ds. hasTrigger context d) \<longrightarrow>
         (\<forall>d \<in> set ds. hasTrigger context d \<longrightarrow> hasAgentReply d) \<longrightarrow>
         shouldRun (checkTrigger server context) = False \<and>
         hasExistingResponse (checkTrigger server context) = True \<and>
         reason (checkTrigger server context) = ''all triggers already answered'')"
proof
  assume claim: "\<forall>server context ds.
         fetchDiscussions server context = Inr (Some ds) \<longrightarrow>
         (\<exists>d \<in> set ds. hasTrigger context d) \<longrightarrow>
         (\<forall>d \<in> set ds. hasTrigger context d \<longrightarrow> hasAgentReply d) \<longrightarrow>
         shouldRun (checkTrigger server context) = False \<and>
         hasExistingResponse (checkTrigger server context) = True \<and>
         reason (checkTrigger server context) = ''all triggers already answered''"
  have h1: "fetchDiscussions (mkServer [answeredDiscussion]) sampleContext =
      Inr (Some [answeredDiscussion])"
    by (rule fetch_mkServer)
  have h2: "\<exists>d \<in> set [answeredDiscussion]. hasTrigger sampleContext d"
    by (simp add: answeredDiscussion_facts)
  have h3: "\<forall>d \<in> set [answeredDiscussion]. hasTrigger sampleContext d \<longrightarrow> hasAgentReply d"
    by (simp add: answeredDiscussion_facts)
  from claim h1 h2 h3
  have "reason (checkTrigger (mkServer [answeredDiscussion]) sampleContext) =
      ''all triggers already answered''"
    by blast
  then show False
    by (simp add: checkTrigger_sample_reason)
qed

section \<open>New triggers are scoped to their discussion\<close>

text \<open>
  C2. When the discussions were fetched, the trigger comments that \<open>checkTrigger\<close> returns
  are exactly the trigger notes of the discussions that hold no note by the agent identity,
  each with its discussion id, in the order of the discussions and of their notes. Given
  two discussions, one with an unanswered trigger and one with an answered trigger (in
  either order), the result has \<open>shouldRun = true\<close> and holds the trigger notes of the
  unanswered discussion only.
\<close>

theorem checkTrigger_newTriggers:
  assumes "fetchDiscussions server context = Inr (Some ds)"
  shows "triggerComments_r (checkTrigger server context) = unansweredTriggers context ds \<and>
         set (unansweredTriggers context ds) =
           {\<lparr> tc_note = n, tc_discussionId = discussion_id d, hasClaudeReply = False \<rparr> | n d.
              d \<in> set ds \<and> n \<in> set (notesOf d) \<and> isTriggerNote context n \<and>
              \<not> hasAgentReply d} \<and>
         ((ds = [d1, d2] \<or> ds = [d2, d1]) \<and> hasTrigger context d1 \<and> \<not> hasAgentReply d1 \<and>
          hasTrigger context d2 \<and> hasAgentReply d2 \<longrightarrow>
            shouldRun (checkTrigger server context) \<and>
            triggerComments_r (checkTrigger server context) =
              map (\<lambda>n. \<lparr> tc_note = n, tc_discussionId = discussion_id d1,
                          hasClaudeReply = False \<rparr>)
                (filter (isTriggerNote context) (notesOf d1)))"
proof (intro conjI impI)
  show eq: "triggerComments_r (checkTrigger server context) = unansweredTriggers context ds"
    by (rule checkTrigger_triggerComments [OF assms])
  show "set (unansweredTriggers context ds) =
      {\<lparr> tc_note = n, tc_discussionId = discussion_id d, hasClaudeReply = False \<rparr> | n d.
         d \<in> set ds \<and> n \<in> set (notesOf d) \<and> isTriggerNote context n \<and> \<not> hasAgentReply d}"
    by (rule set_unansweredTriggers)
  assume two: "(ds = [d1, d2] \<or> ds = [d2, d1]) \<and> hasTrigger context d1 \<and> \<not> hasAgentReply d1 \<and>
      hasTrigger context d2 \<and> hasAgentReply d2"
  then have "d1 \<in> set ds" by auto
  with two show "shouldRun (checkTrigger server context)"
    using checkTrigger_runs [OF assms] by blast
  from two show "triggerComments_r (checkTrigger server context) =
      map (\<lambda>n. \<lparr> tc_note = n, tc_discussionId = discussion_id d1, hasClaudeReply = False \<rparr>)
        (filter (isTriggerNote context) (notesOf d1))"
    unfolding eq using unansweredTriggers_pair [of d1 d2 "context"] by auto
qed

theorem checkTrigger_newTriggers_witness:
  "shouldRun (checkTrigger (mkServer [openDiscussion, answeredDiscussion]) sampleContext) \<and>
   triggerComments_r (checkTrigger (mkServer [openDiscussion, answeredDiscussion]) sampleContext) =
     [\<lparr> tc_note = mkNote 3 ''bob'' ''Hey @CLAUDE can you help?'',
        tc_discussionId = ''d-open'', hasClaudeReply = False \<rparr>]"
proof -
  have h: "fetchDiscussions (mkServer [openDiscussion, answeredDiscussion]) sampleContext =
      Inr (Some [openDiscussion, answeredDiscussion])"
    by (rule fetch_mkServer)
  have two: "([openDiscussion, answeredDiscussion] = [openDiscussion, answeredDiscussion] \<or>
       [openDiscussion, answeredDiscussion] = [answeredDiscussion, openDiscussion]) \<and>
      hasTrigger sampleContext openDiscussion \<and> \<not> hasAgentReply openDiscussion \<and>
      hasTrigger sampleContext answeredDiscussion \<and> hasAgentReply answeredDiscussion"
    by (simp add: answeredDiscussion_facts openDiscussion_facts)
  have trig: "filter (isTriggerNote sampleContext) (notesOf openDiscussion) =
      [mkNote 3 ''bob'' ''Hey @CLAUDE can you help?'']"
    by (simp add: sample_defs note_defs)
  have ident: "discussion_id openDiscussion = ''d-open''"
    by (simp add: sample_defs)
  from checkTrigger_newTriggers [OF h, of openDiscussion answeredDiscussion] two
  have "shouldRun (checkTrigger (mkServer [openDiscussion, answeredDiscussion]) sampleContext) \<and>
      triggerComments_r (checkTrigger (mkServer [openDiscussion, answeredDiscussion]) sampleContext) =
        map (\<lambda>n. \<lparr> tc_note = n, tc_discussionId = discussion_id openDiscussion,
                    hasClaudeReply = False \<rparr>)
          (filter (isTriggerNote sampleContext) (notesOf openDiscussion))"
    by blast
  then show ?thesis
    by (simp only: trig ident list.map)
qed

section \<open>The classifier partitions the notes\<close>

text \<open>
  C3. For every list of discussions, the trigger, context and resolved comments of
  \<open>categorizeComments\<close> together are exactly the notes not written by the agent identity:
  as sets, and counted with multiplicity (every occurrence of a note lands in exactly one
  list). Trigger comments never overlap the other two lists; context and resolved comments
  do not overlap when the note ids are unique, as the data model has them. The notes of the
  agent identity are exactly \<open>claudeReplies\<close> and are in none of the three other lists.
\<close>

theorem categorizeComments_partition:
  "set (triggerComments (categorizeComments ds context)) \<union>
   set (contextComments (categorizeComments ds context)) \<union>
   set (resolvedComments (categorizeComments ds context)) =
     {n \<in> set (allNotes ds). \<not> isClaudeNote n} \<and>
   mset (triggerComments (categorizeComments ds context)) +
   mset (contextComments (categorizeComments ds context)) +
   mset (resolvedComments (categorizeComments ds context)) =
     mset (filter (\<lambda>n. \<not> isClaudeNote n) (allNotes ds)) \<and>
   set (triggerComments (categorizeComments ds context)) \<inter>
   set (contextComments (categorizeComments ds context)) = {} \<and>
   set (triggerComments (categorizeComments ds context)) \<inter>
   set (resolvedComments (categorizeComments ds context)) = {} \<and>
   (distinct (map note_id (allNotes ds)) \<longrightarrow>
      set (contextComments (categorizeComments ds context)) \<inter>
      set (resolvedComments (categorizeComments ds context)) = {}) \<and>
   claudeReplies (categorizeComments ds context) = filter isClaudeNote (allNotes ds) \<and>
   (\<forall>n. isClaudeNote n \<longrightarrow>
      n \<notin> set (triggerComments (categorizeComments ds context)) \<and>
      n \<notin> set (contextComments (categorizeComments ds context)) \<and>
      n \<notin> set (resolvedComments (categorizeComments ds context)))"
proof (intro conjI impI allI)
  show "set (triggerComments (categorizeComments ds context)) \<union>
      set (contextComments (categorizeComments ds context)) \<union>
      set (resolvedComments (categorizeComments ds context)) =
      {n \<in> set (allNotes ds). \<not> isClaudeNote n}"
    unfolding set_triggerComments set_contextComments set_resolvedComments
    by (auto simp: allNotes_def)
  show "mset (triggerComments (categorizeComments ds context)) +
      mset (contextComments (categorizeComments ds context)) +
      mset (resolvedComments (categorizeComments ds context)) =
      mset (filter (\<lambda>n. \<not> isClaudeNote n) (allNotes ds))"
    by (rule mset_categorized)
  show "set (triggerComments (categorizeComments ds context)) \<inter>
      set (contextComments (categorizeComments ds context)) = {}"
    unfolding set_triggerComments set_contextComments by auto
  show "set (triggerComments (categorizeComments ds context)) \<inter>
      set (resolvedComments (categorizeComments ds context)) = {}"
    unfolding set_triggerComments set_resolvedComments by auto
  show "claudeReplies (categorizeComments ds context) = filter isClaudeNote (allNotes ds)"
    by (rule claudeReplies_eq)
next
  assume "distinct (map note_id (allNotes ds))"
  then have "distinct (allNotes ds)" by (rule distinct_ids)
  then show "set (contextComments (categorizeComments ds context)) \<inter>
      set (resolvedComments (categorizeComments ds context)) = {}"
    by (rule context_resolved_disjoint)
next
  fix n assume "isClaudeNote n"
  then show "n \<notin> set (triggerComments (categorizeComments ds context))"
    and "n \<notin> set (contextComments (categorizeComments ds context))"
    and "n \<notin> set (resolvedComments (categorizeComments ds context))"
    unfolding set_triggerComments set_contextComments set_resolvedComments by auto
qed

theorem categorizeComments_partition_witness:
  "set (contextComments (categorizeComments [answeredDiscussion, resolvedDiscussion] sampleContext)) \<inter>
   set (resolvedComments (categorizeComments [answeredDiscussion, resolvedDiscussion] sampleContext)) = {} \<and>
   claudeReplies (categorizeComments [answeredDiscussion, resolvedDiscussion] sampleContext) =
     [mkNote 2 ''claude-bot'' ''Done.'']"
proof -
  have replies: "filter isClaudeNote (allNotes [answeredDiscussion, resolvedDiscussion]) =
      [mkNote 2 ''claude-bot'' ''Done.'']"
    by (simp add: allNotes_def sample_defs note_defs)
  note p = categorizeComments_partition [of "[answeredDiscussion, resolvedDiscussion]" sampleContext]
  note q = p [THEN conjunct2, THEN conjunct2, THEN conjunct2, THEN conjunct2]
  have disjoint: "set (contextComments (categorizeComments [answeredDiscussion, resolvedDiscussion] sampleContext)) \<inter>
      set (resolvedComments (categorizeComments [answeredDiscussion, resolvedDiscussion] sampleContext)) = {}"
    by (rule q [THEN conjunct1, THEN mp, OF sample_ids_distinct])
  have "claudeReplies (categorizeComments [answeredDiscussion, resolvedDiscussion] sampleContext) =
        filter isClaudeNote (allNotes [answeredDiscussion, resolvedDiscussion])"
    by (rule q [THEN conjunct2, THEN conjunct1])
  with disjoint
  have "set (contextComments (categorizeComments [answeredDiscussion, resolvedDiscussion] sampleContext)) \<inter>
      set (resolvedComments (categorizeComments [answeredDiscussion, resolvedDiscussion] sampleContext)) = {} \<and>
      claudeReplies (categorizeComments [answeredDiscussion, resolvedDiscussion] sampleContext) =
        filter isClaudeNote (allNotes [answeredDiscussion, resolvedDiscussion])"
    by (rule conjI)
  then show ?thesis by (simp only: replies)
qed

section \<open>Triggers come before resolution\<close>

text \<open>
  C5. A note of a resolved discussion that is not by the agent identity and whose body
  contains the activation phrase is a trigger comment, and is neither a resolved nor a
  context comment. The activation phrase is not empty: \<open>parseGitLabContext\<close> never
  builds a context with an empty one (\<open>parseGitLabContext_triggerPhrase\<close>).
\<close>

theorem trigger_before_resolved:
  assumes "d \<in> set ds" and "note \<in> set (notesOf d)" and "isResolvedOf d"
    and "\<not> isClaudeNote note" and "body note = Some b" and "isValidTrigger b context"
    and "triggerPhrase context \<noteq> []"
  shows "note \<in> set (triggerComments (categorizeComments ds context)) \<and>
         note \<notin> set (resolvedComments (categorizeComments ds context)) \<and>
         note \<notin> set (contextComments (categorizeComments ds context))"
proof -
  from assms(6,7) have "b \<noteq> []"
    using isValidTrigger_empty_body by blast
  with assms(5,6) have trig: "isTriggerNote context note"
    by (simp add: isTriggerNote_def)
  from assms(1,2) have "note \<in> set (allNotes ds)" by (rule note_in_allNotes)
  with trig assms(4) show ?thesis
    unfolding set_triggerComments set_contextComments set_resolvedComments by auto
qed

theorem trigger_before_resolved_witness:
  "mkNote 5 ''dave'' ''@claude what about this?'' \<in>
     set (triggerComments (categorizeComments [answeredDiscussion, resolvedDiscussion] sampleContext)) \<and>
   mkNote 5 ''dave'' ''@claude what about this?'' \<notin>
     set (resolvedComments (categorizeComments [answeredDiscussion, resolvedDiscussion] sampleContext)) \<and>
   mkNote 5 ''dave'' ''@claude what about this?'' \<notin>
     set (contextComments (categorizeComments [answeredDiscussion, resolvedDiscussion] sampleContext))"
proof -
  have h1: "resolvedDiscussion \<in> set [answeredDiscussion, resolvedDiscussion]" by simp
  have h2: "mkNote 5 ''dave'' ''@claude what about this?'' \<in> set (notesOf resolvedDiscussion)"
    by (simp add: notesOf_def resolvedDiscussion_def mkDiscussion_def)
  have h3: "isResolvedOf resolvedDiscussion"
    by (simp add: isResolvedOf_def resolvedDiscussion_def mkDiscussion_def)
  have h4: "\<not> isClaudeNote (mkNote 5 ''dave'' ''@claude what about this?'')"
    by (simp add: sample_defs note_defs)
  have h5: "body (mkNote 5 ''dave'' ''@claude what about this?'') = Some ''@claude what about this?''"
    by (simp add: mkNote_def)
  have h6: "isValidTrigger ''@claude what about this?'' sampleContext"
    by (simp add: sample_defs note_defs)
  have h7: "triggerPhrase sampleContext \<noteq> []"
    by (simp add: sampleContext_fields)
  show ?thesis by (rule trigger_before_resolved [OF h1 h2 h3 h4 h5 h6 h7])
qed

section \<open>Malformed notes\<close>

text \<open>
  C4, as the code has it. Take any note of any of the discussions. If its author is
  missing, the note is never among \<open>claudeReplies\<close>, and its body decides as for any
  other note: with a body that contains the activation phrase it is a trigger comment,
  otherwise it is placed by the resolution state of its discussion. If its body is missing
  or empty, the note is never a trigger comment: written by the agent identity it is among
  \<open>claudeReplies\<close> and in no other list, otherwise it is placed by the resolution state of
  its discussion (\<open>resolvedComments\<close> if resolved, else \<open>contextComments\<close>). In
  every case the note is in one of the four lists: it is never dropped.
\<close>

theorem malformed_note_classification:
  assumes "d \<in> set ds" and "note \<in> set (notesOf d)"
  shows
    "(author note = None \<longrightarrow>
        note \<notin> set (claudeReplies (categorizeComments ds context)) \<and>
        (isTriggerNote context note \<longrightarrow>
           note \<in> set (triggerComments (categorizeComments ds context))) \<and>
        (\<not> isTriggerNote context note \<longrightarrow>
           note \<notin> set (triggerComments (categorizeComments ds context)) \<and>
           note \<in> set (if isResolvedOf d
                        then resolvedComments (categorizeComments ds context)
                        else contextComments (categorizeComments ds context)))) \<and>
     (body note = None \<or> body note = Some [] \<longrightarrow>
        note \<notin> set (triggerComments (categorizeComments ds context)) \<and>
        (isClaudeNote note \<longrightarrow>
           note \<in> set (claudeReplies (categorizeComments ds context)) \<and>
           note \<notin> set (contextComments (categorizeComments ds context)) \<and>
           note \<notin> set (resolvedComments (categorizeComments ds context))) \<and>
        (\<not> isClaudeNote note \<longrightarrow>
           note \<notin> set (claudeReplies (categorizeComments ds context)) \<and>
           note \<in> set (if isResolvedOf d
                        then resolvedComments (categorizeComments ds context)
                        else contextComments (categorizeComments ds context)))) \<and>
     (note \<in> set (triggerComments (categorizeComments ds context)) \<or>
      note \<in> set (contextComments (categorizeComments ds context)) \<or>
      note \<in> set (resolvedComments (categorizeComments ds context)) \<or>
      note \<in> set (claudeReplies (categorizeComments ds context)))"
proof (intro conjI impI)
  assume "author note = None"
  then have human: "\<not> isClaudeNote note" by (rule isClaudeNote_no_author)
  then show "note \<notin> set (claudeReplies (categorizeComments ds context))"
    by (rule not_in_claudeReplies)
  {
    assume "isTriggerNote context note"
    with assms human show "note \<in> set (triggerComments (categorizeComments ds context))"
      by (rule in_triggerComments)
  }
  {
    assume plain: "\<not> isTriggerNote context note"
    then show "note \<notin> set (triggerComments (categorizeComments ds context))"
      by (rule not_in_triggerComments)
    from assms human plain
    show "note \<in> set (if isResolvedOf d
                        then resolvedComments (categorizeComments ds context)
                        else contextComments (categorizeComments ds context))"
      by (rule in_by_resolution)
  }
next
  assume "body note = None \<or> body note = Some []"
  then have plain: "\<not> isTriggerNote context note" by (rule isTriggerNote_no_body)
  then show "note \<notin> set (triggerComments (categorizeComments ds context))"
    by (rule not_in_triggerComments)
  {
    assume bot: "isClaudeNote note"
    with assms show "note \<in> set (claudeReplies (categorizeComments ds context))"
      by (rule in_claudeReplies)
    from bot show "note \<notin> set (contextComments (categorizeComments ds context))"
      and "note \<notin> set (resolvedComments (categorizeComments ds context))"
      using claude_not_in_others by blast+
  }
  {
    assume human: "\<not> isClaudeNote note"
    then show "note \<notin> set (claudeReplies (categorizeComments ds context))"
      by (rule not_in_claudeReplies)
    from assms human plain
    show "note \<in> set (if isResolvedOf d
                        then resolvedComments (categorizeComments ds context)
                        else contextComments (categorizeComments ds context))"
      by (rule in_by_resolution)
  }
next
  show "note \<in> set (triggerComments (categorizeComments ds context)) \<or>
      note \<in> set (contextComments (categorizeComments ds context)) \<or>
      note \<in> set (resolvedComments (categorizeComments ds context)) \<or>
      note \<in> set (claudeReplies (categorizeComments ds context))"
    using assms
    unfolding set_triggerComments set_contextComments set_resolvedComments set_claudeReplies
    by (auto simp: allNotes_def)
qed

theorem malformed_note_classification_witness:
  "noAuthorNote \<in> set (triggerComments (categorizeComments [malformedDiscussion] sampleContext)) \<and>
   noBodyNote \<in> set (claudeReplies (categorizeComments [malformedDiscussion] sampleContext)) \<and>
   noBodyNote \<notin> set (triggerComments (categorizeComments [malformedDiscussion] sampleContext))"
proof -
  note a = malformed_note_classification
    [OF malformed_sample(1) malformed_sample(2), of sampleContext]
  note b = malformed_note_classification
    [OF malformed_sample(1) malformed_sample(3), of sampleContext]
  from a malformed_sample(4) malformed_sample(6)
  have one: "noAuthorNote \<in> set (triggerComments (categorizeComments [malformedDiscussion] sampleContext))"
    by blast
  from b malformed_sample(5) malformed_sample(7)
  have two: "noBodyNote \<in> set (claudeReplies (categorizeComments [malformedDiscussion] sampleContext))"
    and three: "noBodyNote \<notin> set (triggerComments (categorizeComments [malformedDiscussion] sampleContext))"
    by blast+
  from one two three show ?thesis by blast
qed

text \<open>
  A note without an author whose body holds the activation phrase is a trigger comment, so
  not every malformed note is placed by resolution state alone.
\<close>

theorem malformed_note_counterexample:
  "\<not> (\<forall>ds context d note.
         d \<in> set ds \<and> note \<in> set (notesOf d) \<and> (author note = None \<or> body note = None) \<longrightarrow>
         note \<notin> set (triggerComments (categorizeComments ds context)) \<and>
         note \<notin> set (claudeReplies (categorizeComments ds context)) \<and>
         note \<in> set (if isResolvedOf d
                      then resolvedComments (categorizeComments ds context)
                      else contextComments (categorizeComments ds context)))"
proof
  assume claim: "\<forall>ds context d note.
         d \<in> set ds \<and> note \<in> set (notesOf d) \<and> (author note = None \<or> body note = None) \<longrightarrow>
         note \<notin> set (triggerComments (categorizeComments ds context)) \<and>
         note \<notin> set (claudeReplies (categorizeComments ds context)) \<and>
         note \<in> set (if isResolvedOf d
                      then resolvedComments (categorizeComments ds context)
                      else contextComments (categorizeComments ds context))"
  have "noAuthorNote \<in> set (triggerComments (categorizeComments [malformedDiscussion] sampleContext))"
    using malformed_sample(1) malformed_sample(2)
      isClaudeNote_no_author [OF malformed_sample(4)] malformed_sample(6)
    by (rule in_triggerComments)
  moreover from claim malformed_sample(1) malformed_sample(2) malformed_sample(4)
  have "noAuthorNote \<notin> set (triggerComments (categorizeComments [malformedDiscussion] sampleContext))"
    by blast
  ultimately show False by contradiction
qed

section \<open>The IID of the context\<close>

text \<open>
  C10. With a token and a project id present and neither \<open>CI_MERGE_REQUEST_IID\<close> nor
  \<open>CI_ISSUE_IID\<close> set (or set to the empty string), \<open>parseGitLabContext\<close> succeeds
  with \<open>iid = 0\<close> for an issue. It raises the error about the missing IID exactly when the
  token and the project id are present and the IID string parses to \<open>NaN\<close>, which needs
  one of the two variables to be set: the guard \<open>!iid && iid !== 0\<close> is false for \<open>0\<close>.
\<close>

theorem parseGitLabContext_iid:
  "(tokenOf e \<noteq> [] \<and> truthy_str (e ''CI_PROJECT_ID'') \<and>
    \<not> truthy_str (e ''CI_MERGE_REQUEST_IID'') \<and> \<not> truthy_str (e ''CI_ISSUE_IID'') \<longrightarrow>
      parseGitLabContext e = Inr (buildContext e) \<and> iid (buildContext e) = Num 0 \<and>
      \<not> isMR (buildContext e)) \<and>
   (parseGitLabContext e = Inl NO_IID) =
     (tokenOf e \<noteq> [] \<and> truthy_str (e ''CI_PROJECT_ID'') \<and> parseInt (iidSource e) = NaN) \<and>
   (parseInt (iidSource e) = NaN \<longrightarrow>
      truthy_str (e ''CI_MERGE_REQUEST_IID'') \<or> truthy_str (e ''CI_ISSUE_IID''))"
proof (intro conjI impI)
  have project: "(orElse (e ''CI_PROJECT_ID'') [] = []) = (\<not> truthy_str (e ''CI_PROJECT_ID''))"
    by (simp add: orElse_def truthy_str_def split: option.split)
  {
    assume unset: "tokenOf e \<noteq> [] \<and> truthy_str (e ''CI_PROJECT_ID'') \<and>
      \<not> truthy_str (e ''CI_MERGE_REQUEST_IID'') \<and> \<not> truthy_str (e ''CI_ISSUE_IID'')"
    then have src: "iidSource e = ''0''" by (simp add: iidSource_unset)
    with unset show "parseGitLabContext e = Inr (buildContext e)"
      by (simp add: parseGitLabContext_cases project parseInt_zero)
    from src show "iid (buildContext e) = Num 0"
      by (simp add: buildContext_def parseInt_zero)
    from unset show "\<not> isMR (buildContext e)"
      by (simp add: buildContext_def)
  }
  show "(parseGitLabContext e = Inl NO_IID) =
     (tokenOf e \<noteq> [] \<and> truthy_str (e ''CI_PROJECT_ID'') \<and> parseInt (iidSource e) = NaN)"
    using messages_distinct by (auto simp: parseGitLabContext_cases project)
  {
    assume nan: "parseInt (iidSource e) = NaN"
    show "truthy_str (e ''CI_MERGE_REQUEST_IID'') \<or> truthy_str (e ''CI_ISSUE_IID'')"
    proof (rule ccontr)
      assume "\<not> (truthy_str (e ''CI_MERGE_REQUEST_IID'') \<or> truthy_str (e ''CI_ISSUE_IID''))"
      then have "iidSource e = ''0''" by (simp add: iidSource_unset)
      with nan show False by (simp add: parseInt_zero)
    qed
  }
qed

theorem parseGitLabContext_iid_witness:
  "parseGitLabContext envNoIid = Inr (buildContext envNoIid) \<and>
   iid (buildContext envNoIid) = Num 0 \<and>
   parseGitLabContext envBadIid = Inl NO_IID"
proof -
  have h: "tokenOf envNoIid \<noteq> [] \<and> truthy_str (envNoIid ''CI_PROJECT_ID'') \<and>
      \<not> truthy_str (envNoIid ''CI_MERGE_REQUEST_IID'') \<and> \<not> truthy_str (envNoIid ''CI_ISSUE_IID'')"
    by (simp add: envNoIid_def tokenOf_def orElse_def truthy_str_def)
  have g: "tokenOf envBadIid \<noteq> [] \<and> truthy_str (envBadIid ''CI_PROJECT_ID'') \<and>
      parseInt (iidSource envBadIid) = NaN"
    by (simp add: envBadIid_def tokenOf_def orElse_def truthy_str_def iidSource_def
        parseInt_samples)
  note a = parseGitLabContext_iid [of envNoIid, THEN conjunct1, THEN mp, OF h]
  note b = parseGitLabContext_iid [of envBadIid, THEN conjunct2, THEN conjunct1]
  from a b g show ?thesis by simp
qed

section \<open>Replies are new top-level notes\<close>

text \<open>
  C9. \<open>createReply\<close> sends the request that \<open>createComment\<close> sends for the same
  project, kind and iid: the creation of a new note on the merge request or issue, not of
  a note in a discussion. Its body is the line \<open>> In reply to discussion\<close> with the
  discussion id, an empty line, and the given body. The note id has no effect on the
  request, and the discussion id appears in the body text only.
\<close>

theorem createReply_top_level:
  "createReply params =
     createComment \<lparr> c_projectId = r_projectId params, c_isMR = r_isMR params,
       c_iid = r_iid params,
       c_body = ''> In reply to discussion '' @ r_discussionId params @
                [CHR 0x0A, CHR 0x0A] @ r_body params \<rparr> \<and>
   payload (createReply params) =
     ''> In reply to discussion '' @ r_discussionId params @ [CHR 0x0A, CHR 0x0A] @
     r_body params \<and>
   createReply (params\<lparr>r_noteId := n\<rparr>) = createReply params \<and>
   createReply (params\<lparr>r_discussionId := other\<rparr>) =
     createComment \<lparr> c_projectId = r_projectId params, c_isMR = r_isMR params,
       c_iid = r_iid params,
       c_body = ''> In reply to discussion '' @ other @ [CHR 0x0A, CHR 0x0A] @
                r_body params \<rparr>"
  by (simp add: createReply_def createComment_def Let_def)

section \<open>The relay publishes new, non-empty content\<close>




end
